theory Spec2Isabelle
  imports Complex_Main
begin

section \<open>Numeric values\<close>

text \<open>
  The notebook computes on numpy/xarray arrays of IEEE-754 doubles. A value is modelled as a
  finite number, one of the two infinities, or NaN. Finite arithmetic is exact (rounding is
  not modelled); the special values follow IEEE-754: NaN propagates, \<open>x / 0\<close> is an
  infinity for \<open>x \<noteq> 0\<close> and NaN for \<open>x = 0\<close>, \<open>0 * inf\<close> and \<open>inf - inf\<close> are NaN,
  and every comparison with NaN is false. Signed zeros are not distinguished.
\<close>

datatype fl = Fin real | PInf | NInf | NaN

fun fl_neg :: "fl \<Rightarrow> fl" where
  "fl_neg (Fin a) = Fin (- a)"
| "fl_neg PInf = NInf"
| "fl_neg NInf = PInf"
| "fl_neg NaN = NaN"

fun fl_add :: "fl \<Rightarrow> fl \<Rightarrow> fl" where
  "fl_add NaN y = NaN"
| "fl_add (Fin a) NaN = NaN"
| "fl_add PInf NaN = NaN"
| "fl_add NInf NaN = NaN"
| "fl_add (Fin a) (Fin b) = Fin (a + b)"
| "fl_add (Fin a) PInf = PInf"
| "fl_add (Fin a) NInf = NInf"
| "fl_add PInf (Fin b) = PInf"
| "fl_add PInf PInf = PInf"
| "fl_add PInf NInf = NaN"
| "fl_add NInf (Fin b) = NInf"
| "fl_add NInf PInf = NaN"
| "fl_add NInf NInf = NInf"

definition fl_sub :: "fl \<Rightarrow> fl \<Rightarrow> fl" where
  "fl_sub x y = fl_add x (fl_neg y)"

fun fl_mul :: "fl \<Rightarrow> fl \<Rightarrow> fl" where
  "fl_mul NaN y = NaN"
| "fl_mul (Fin a) NaN = NaN"
| "fl_mul PInf NaN = NaN"
| "fl_mul NInf NaN = NaN"
| "fl_mul (Fin a) (Fin b) = Fin (a * b)"
| "fl_mul (Fin a) PInf = (if a = 0 then NaN else if 0 < a then PInf else NInf)"
| "fl_mul (Fin a) NInf = (if a = 0 then NaN else if 0 < a then NInf else PInf)"
| "fl_mul PInf (Fin b) = (if b = 0 then NaN else if 0 < b then PInf else NInf)"
| "fl_mul NInf (Fin b) = (if b = 0 then NaN else if 0 < b then NInf else PInf)"
| "fl_mul PInf PInf = PInf"
| "fl_mul PInf NInf = NInf"
| "fl_mul NInf PInf = NInf"
| "fl_mul NInf NInf = PInf"

fun fl_div :: "fl \<Rightarrow> fl \<Rightarrow> fl" where
  "fl_div NaN y = NaN"
| "fl_div (Fin a) NaN = NaN"
| "fl_div PInf NaN = NaN"
| "fl_div NInf NaN = NaN"
| "fl_div (Fin a) (Fin b) =
     (if b = 0 then (if a = 0 then NaN else if 0 < a then PInf else NInf) else Fin (a / b))"
| "fl_div (Fin a) PInf = Fin 0"
| "fl_div (Fin a) NInf = Fin 0"
| "fl_div PInf (Fin b) = (if 0 \<le> b then PInf else NInf)"
| "fl_div NInf (Fin b) = (if 0 \<le> b then NInf else PInf)"
| "fl_div PInf PInf = NaN"
| "fl_div PInf NInf = NaN"
| "fl_div NInf PInf = NaN"
| "fl_div NInf NInf = NaN"

fun fl_sqrt :: "fl \<Rightarrow> fl" where
  "fl_sqrt (Fin a) = (if a < 0 then NaN else Fin (sqrt a))"
| "fl_sqrt PInf = PInf"
| "fl_sqrt NInf = NaN"
| "fl_sqrt NaN = NaN"

text \<open>\<open>fl_gt x y\<close> is the comparison \<open>x > y\<close>.\<close>

fun fl_gt :: "fl \<Rightarrow> fl \<Rightarrow> bool" where
  "fl_gt NaN y = False"
| "fl_gt (Fin a) NaN = False"
| "fl_gt PInf NaN = False"
| "fl_gt NInf y = False"
| "fl_gt (Fin a) (Fin b) = (b < a)"
| "fl_gt (Fin a) PInf = False"
| "fl_gt (Fin a) NInf = True"
| "fl_gt PInf (Fin b) = True"
| "fl_gt PInf PInf = False"
| "fl_gt PInf NInf = True"

fun is_fin :: "fl \<Rightarrow> bool" where
  "is_fin (Fin a) = True"
| "is_fin PInf = False"
| "is_fin NInf = False"
| "is_fin NaN = False"

primrec fl_sum :: "fl list \<Rightarrow> fl" where
  "fl_sum [] = Fin 0"
| "fl_sum (x # xs) = fl_add x (fl_sum xs)"

text \<open>
  \<open>.mean()\<close> of an xarray object skips NaN for floating-point data (\<open>skipna\<close> defaults to
  true); the mean of no valid value is NaN.
\<close>

definition dropna_vals :: "fl list \<Rightarrow> fl list" where
  "dropna_vals xs = filter (\<lambda>x. x \<noteq> NaN) xs"

definition fl_mean :: "fl list \<Rightarrow> fl" where
  "fl_mean xs =
     (let ys = dropna_vals xs
      in if ys = [] then NaN else fl_div (fl_sum ys) (Fin (real (length ys))))"

section \<open>Gridded fields and label-based selection\<close>

text \<open>
  A pandas timestamp, to the day. The sea-surface-temperature field is a 3-D array indexed by
  (time, lat, lon) with its coordinate arrays.
\<close>

record timestamp =
  year :: int
  month :: nat
  day :: nat

type_synonym grid = "fl list list"

record gridded_field =
  time :: "timestamp list"
  lat :: "real list"
  lon :: "real list"
  vals :: "grid list"

text \<open>
  \<open>.sel(c=slice(lo, hi))\<close> on an ascending coordinate keeps the entries whose label lies in
  the closed interval; labels outside the coordinate's range select nothing and raise nothing.
\<close>

definition sel_coord :: "real \<Rightarrow> real \<Rightarrow> real list \<Rightarrow> 'a list \<Rightarrow> 'a list" where
  "sel_coord lo hi cs xs = map snd (filter (\<lambda>p. lo \<le> fst p \<and> fst p \<le> hi) (zip cs xs))"

definition sel_lat_grid :: "real \<Rightarrow> real \<Rightarrow> real list \<Rightarrow> grid \<Rightarrow> grid" where
  "sel_lat_grid lo hi lats g = sel_coord lo hi lats g"

definition sel_lon_grid :: "real \<Rightarrow> real \<Rightarrow> real list \<Rightarrow> grid \<Rightarrow> grid" where
  "sel_lon_grid lo hi lons g = map (sel_coord lo hi lons) g"

definition sel_lat :: "real \<Rightarrow> real \<Rightarrow> gridded_field \<Rightarrow> gridded_field" where
  "sel_lat lo hi f =
     f\<lparr>lat := sel_coord lo hi (lat f) (lat f),
       vals := map (sel_lat_grid lo hi (lat f)) (vals f)\<rparr>"

definition sel_lon :: "real \<Rightarrow> real \<Rightarrow> gridded_field \<Rightarrow> gridded_field" where
  "sel_lon lo hi f =
     f\<lparr>lon := sel_coord lo hi (lon f) (lon f),
       vals := map (sel_lon_grid lo hi (lon f)) (vals f)\<rparr>"

text \<open>
  \<open>.sel(time=slice(*base_period))\<close> with a pair of year strings, as the notebook passes
  (\<open>("1991", "2020")\<close>): every timestamp from the first day of the start year to the last
  day of the end year.
\<close>

definition in_years :: "int \<times> int \<Rightarrow> timestamp \<Rightarrow> bool" where
  "in_years bp ts = (fst bp \<le> year ts \<and> year ts \<le> snd bp)"

definition sel_time :: "int \<times> int \<Rightarrow> gridded_field \<Rightarrow> gridded_field" where
  "sel_time bp f =
     f\<lparr>time := filter (in_years bp) (time f),
       vals := map snd (filter (\<lambda>p. in_years bp (fst p)) (zip (time f) (vals f)))\<rparr>"

section \<open>The fitted EOF model\<close>

text \<open>
  \<open>EOF(n_modes=2, use_coslat=True)\<close> of the xeofs library is external to the notebook. A
  fitted model is what the notebook reads from it: the two spatial patterns
  (\<open>components()\<close>, on the grid of the fitted data, NaN where the library dropped a grid
  point), the two explained variances, and the fitted preprocessor (centring and
  \<open>cos(lat)\<close> weighting) that \<open>transform\<close> applies to new data before projecting it on
  the patterns. The projection is an inner product over the grid points the patterns are
  defined on.
\<close>

record eof_model =
  comp_lat :: "real list"
  comp_lon :: "real list"
  components :: "grid \<times> grid"
  explained_variance :: "fl \<times> fl"
  preprocess :: "gridded_field \<Rightarrow> grid list"

definition project :: "grid \<Rightarrow> grid \<Rightarrow> fl" where
  "project snap pat =
     fl_sum (map (\<lambda>p. fl_mul (fst p) (snd p))
       (filter (\<lambda>p. snd p \<noteq> NaN) (zip (concat snap) (concat pat))))"

definition transform :: "eof_model \<Rightarrow> gridded_field \<Rightarrow> (fl \<times> fl) list" where
  "transform m X =
     map (\<lambda>snap. (project snap (fst (components m)), project snap (snd (components m))))
       (preprocess m X)"

section \<open>correction_factor\<close>

text \<open>
  \<^verbatim>\<open>_subset = dict(lat=slice(-5, 5), lon=slice(140, 180))\<close>
  \<^verbatim>\<open>corr_factor[k] = 1 if _eofs.sel(mode=k+1, **_subset).mean() > 0 else -1\<close>
\<close>

definition box_mean :: "eof_model \<Rightarrow> grid \<Rightarrow> fl" where
  "box_mean m g =
     fl_mean (concat (sel_lon_grid 140 180 (comp_lon m) (sel_lat_grid (- 5) 5 (comp_lat m) g)))"

definition sign_factor :: "fl \<Rightarrow> fl" where
  "sign_factor mu = (if fl_gt mu (Fin 0) then Fin 1 else Fin (- 1))"

definition correction_factor :: "eof_model \<Rightarrow> fl \<times> fl" where
  "correction_factor m =
     (sign_factor (box_mean m (fst (components m))),
      sign_factor (box_mean m (snd (components m))))"

section \<open>Errors\<close>

text \<open>
  The exceptions that reach the caller of \<open>compute_index\<close>: \<open>TypeError\<close> and
  \<open>LinAlgError\<close> from numpy's \<open>polyfit\<close>, \<open>ValueError\<close> from xarray's \<open>resample\<close> and
  from numpy's \<open>arange\<close>, and whatever the EOF fit of xeofs raises (\<open>FitError\<close>).
\<close>

datatype error = TypeError | ValueError | LinAlgError | FitError

section \<open>Seasonal (DJF) means\<close>

text \<open>
  The winter-season pipeline that \<open>compute_index\<close> applies to each principal component:
  \<^verbatim>\<open>pc.sel(time=pc.time.dt.month.isin([12, 1, 2]))\<close>
  \<^verbatim>\<open>  .resample(time="QS-DEC").mean().dropna("time").sel(time=slice("1980", None))\<close>
  followed by adding \<open>pd.DateOffset(years=1)\<close> to every remaining time label.
\<close>

type_synonym series = "(timestamp \<times> fl) list"

definition djf_months :: "series \<Rightarrow> series" where
  "djf_months s = filter (\<lambda>p. month (fst p) \<in> {12, 1, 2}) s"

text \<open>
  \<open>QS-DEC\<close> bins are the quarters starting on 1 December, 1 March, 1 June and 1 September,
  labelled by their first day. Quarters are numbered consecutively: the quarter starting in
  March of year \<open>y\<close> has number \<open>4 * y\<close>, the one starting in December \<open>4 * y + 3\<close>;
  January and February belong to the quarter that started in the previous December.
\<close>

definition quarter_index :: "timestamp \<Rightarrow> int" where
  "quarter_index ts =
     (if month ts = 12 then 4 * year ts + 3
      else if month ts < 3 then 4 * year ts - 1
      else if month ts < 6 then 4 * year ts
      else if month ts < 9 then 4 * year ts + 1
      else 4 * year ts + 2)"

definition quarter_start :: "int \<Rightarrow> timestamp" where
  "quarter_start q =
     \<lparr>year = q div 4,
      month = (if q mod 4 = 0 then 3 else if q mod 4 = 1 then 6 else if q mod 4 = 2 then 9 else 12),
      day = 1\<rparr>"

definition bin_values :: "series \<Rightarrow> int \<Rightarrow> fl list" where
  "bin_values s q = map snd (filter (\<lambda>p. quarter_index (fst p) = q) s)"

text \<open>
  Resampling a series without any time step raises \<open>ValueError\<close>. Otherwise it yields one
  bin for every quarter from the first to the last one that holds a sample, the empty ones
  in between included; \<open>.mean()\<close> is the NaN-skipping mean of the bin, NaN for a bin without
  a valid value.
\<close>

definition resample_QS_DEC_mean :: "series \<Rightarrow> error + series" where
  "resample_QS_DEC_mean s =
     (case map (\<lambda>p. quarter_index (fst p)) s of
        [] \<Rightarrow> Inl ValueError
      | q # qs \<Rightarrow>
          Inr (map (\<lambda>k. (quarter_start k, fl_mean (bin_values s k)))
                 [fold min qs q .. fold max qs q]))"

definition dropna :: "series \<Rightarrow> series" where
  "dropna s = filter (\<lambda>p. snd p \<noteq> NaN) s"

definition sel_time_from :: "int \<Rightarrow> series \<Rightarrow> series" where
  "sel_time_from y s = filter (\<lambda>p. y \<le> year (fst p)) s"

definition seasonal_djf :: "series \<Rightarrow> error + series" where
  "seasonal_djf s =
     (case resample_QS_DEC_mean (djf_months s) of
        Inl e \<Rightarrow> Inl e
      | Inr b \<Rightarrow> Inr (sel_time_from 1980 (dropna b)))"

text \<open>\<open>x + pd.DateOffset(years=1)\<close>: the same day one year later, 29 February clipped to 28.\<close>

definition add_one_year :: "timestamp \<Rightarrow> timestamp" where
  "add_one_year ts =
     ts\<lparr>year := year ts + 1, day := (if month ts = 2 \<and> day ts = 29 then 28 else day ts)\<rparr>"

definition relabel :: "series \<Rightarrow> series" where
  "relabel s = map (\<lambda>p. (add_one_year (fst p), snd p)) s"

section \<open>compute_alpha\<close>

text \<open>
  \<open>numpy.polynomial.polynomial.polyfit(x, y, deg=2)\<close> is external. It raises \<open>TypeError\<close>
  for an empty \<open>x\<close> and for \<open>x\<close> and \<open>y\<close> of different lengths, and \<open>LinAlgError\<close> when
  an abscissa is NaN or infinite; otherwise it returns the least-squares solution of the
  Vandermonde system computed by \<open>numpy.linalg.lstsq\<close>, which for a rank-deficient system
  (fewer than three distinct abscissae) is the minimum-norm solution, accompanied by a
  \<open>RankWarning\<close> and not by an exception. The numerical solver is a parameter \<open>lstsq\<close>
  mapping the data to the coefficients \<open>(c0, c1, c2)\<close> in increasing degree.
\<close>

type_synonym coefs = "fl \<times> fl \<times> fl"

type_synonym solver = "fl list \<Rightarrow> fl list \<Rightarrow> coefs"

definition polyfit :: "solver \<Rightarrow> fl list \<Rightarrow> fl list \<Rightarrow> error + coefs" where
  "polyfit lstsq x y =
     (if x = [] then Inl TypeError
      else if length x \<noteq> length y then Inl TypeError
      else if \<not> list_all is_fin x then Inl LinAlgError
      else Inr (lstsq x y))"

definition polyval :: "fl \<Rightarrow> coefs \<Rightarrow> fl" where
  "polyval x c = fl_add (fst c) (fl_mul (fl_add (fst (snd c)) (fl_mul (snd (snd c)) x)) x)"

definition fl_min :: "fl \<Rightarrow> fl \<Rightarrow> fl" where
  "fl_min x y = (if fl_gt x y then y else x)"

definition fl_max :: "fl \<Rightarrow> fl \<Rightarrow> fl" where
  "fl_max x y = (if fl_gt y x then y else x)"

text \<open>
  \<open>np.arange(start, stop, step)\<close> holds \<open>start + i * step\<close> for \<open>i\<close> below its length,
  which numpy computes as \<open>ceil((stop - start) / step)\<close> in double arithmetic: for
  \<open>arange(2.0, 2.1, 0.1)\<close> the quotient is \<open>1.0000000000000009\<close> and the length \<open>2\<close>. As
  rounding is not modelled, the length is a parameter \<open>alen\<close> of the bounds and the step.
  \<open>arange\<close> raises \<open>ValueError\<close> when a bound is not finite.
\<close>

type_synonym arange_len = "real \<Rightarrow> real \<Rightarrow> real \<Rightarrow> nat"

definition arange :: "arange_len \<Rightarrow> fl \<Rightarrow> fl \<Rightarrow> real \<Rightarrow> error + fl list" where
  "arange alen start stop step =
     (case (start, stop) of
        (Fin a, Fin b) \<Rightarrow> Inr (map (\<lambda>i. Fin (a + real i * step)) [0..<alen a b step])
      | _ \<Rightarrow> Inl ValueError)"

text \<open>
  \<^verbatim>\<open>coefs = poly.polyfit(pc1, pc2, deg=2)\<close>
  \<^verbatim>\<open>xfit = np.arange(pc1.min(), pc1.max() + 0.1, 0.1)\<close>
  \<^verbatim>\<open>fit = poly.polyval(xfit, coefs)\<close>
  \<^verbatim>\<open>return coefs[-1], xfit, fit\<close>
  \<open>pc1.min()\<close> and \<open>pc1.max()\<close> are xarray reductions (NaN-skipping; an empty reduction
  raises \<open>ValueError\<close>).
\<close>

definition compute_alpha ::
  "solver \<Rightarrow> arange_len \<Rightarrow> fl list \<Rightarrow> fl list \<Rightarrow> error + (fl \<times> fl list \<times> fl list)" where
  "compute_alpha lstsq alen pc1 pc2 =
     (case polyfit lstsq pc1 pc2 of
        Inl e \<Rightarrow> Inl e
      | Inr c \<Rightarrow>
          (case dropna_vals pc1 of
             [] \<Rightarrow> Inl ValueError
           | v # vs \<Rightarrow>
               (case arange alen (fold fl_min vs v) (fl_add (fold fl_max vs v) (Fin (1 / 10)))
                       (1 / 10) of
                  Inl e \<Rightarrow> Inl e
                | Inr xs \<Rightarrow> Inr (snd (snd c), xs, map (\<lambda>x. polyval x c) xs))))"

section \<open>compute_index\<close>

record index_result =
  index_time :: "timestamp list"
  E_index :: "fl list"
  C_index :: "fl list"
  pcs :: "(fl \<times> fl) list"
  pcs_djf :: "series \<times> series"
  alpha :: fl
  xfit :: "fl list"
  fit :: "fl list"

text \<open>
  \<^verbatim>\<open>scale_factor = 1 / np.sqrt(model.explained_variance())\<close>
  \<^verbatim>\<open>pcs = model.transform(tos_anom) * scale_factor * corr_factor\<close>
  numpy divides by zero without raising (the result is infinite).
\<close>

definition scale_factor :: "eof_model \<Rightarrow> fl \<times> fl" where
  "scale_factor m =
     (fl_div (Fin 1) (fl_sqrt (fst (explained_variance m))),
      fl_div (Fin 1) (fl_sqrt (snd (explained_variance m))))"

definition scaled_pcs :: "eof_model \<Rightarrow> gridded_field \<Rightarrow> (fl \<times> fl) list" where
  "scaled_pcs m X =
     map (\<lambda>s. (fl_mul (fl_mul (fst s) (fst (scale_factor m))) (fst (correction_factor m)),
               fl_mul (fl_mul (snd s) (snd (scale_factor m))) (snd (correction_factor m))))
       (transform m X)"

text \<open>
  \<^verbatim>\<open>eindex = (pc1 - pc2) / (2 ** (1 / 2))\<close>
  \<^verbatim>\<open>cindex = (pc1 + pc2) / (2 ** (1 / 2))\<close>
\<close>

definition eindex :: "fl \<times> fl \<Rightarrow> fl" where
  "eindex p = fl_div (fl_sub (fst p) (snd p)) (Fin (2 powr (1 / 2)))"

definition cindex :: "fl \<times> fl \<Rightarrow> fl" where
  "cindex p = fl_div (fl_add (fst p) (snd p)) (Fin (2 powr (1 / 2)))"

text \<open>
  The whole function. The EOF fit of the xeofs library is the parameter \<open>eof_fit\<close>: it
  returns a fitted model or raises; \<open>compute_index\<close> catches nothing. The notebook calls
  \<open>EOF(n_modes=2, use_coslat=True)\<close> without a \<open>random_state\<close>, and the randomized solver
  of xeofs draws from the global random generator; the state of that generator when
  \<open>model.fit\<close> is called is the argument \<open>rng\<close> of the fit.
  \<^verbatim>\<open>tos_anom = tos_anom.sel(lat=slice(-20, 20), lon=slice(100, 280))\<close>
  \<^verbatim>\<open>model.fit(tos_anom.sel(time=slice(*base_period)), dim="time")\<close>
  \<^verbatim>\<open>pc1 = pcs.sel(mode=1); pc2 = pcs.sel(mode=2)\<close>
  \<^verbatim>\<open>alpha, xfit, fit = compute_alpha(pc1_djf, pc2_djf)\<close>
  \<^verbatim>\<open>return ecindex, pcs, pcs_djf, alpha, xfit, fit\<close>
  The seasonal series of the first component is computed and relabelled before that of the
  second, so an error of the first is the one raised. The result record holds \<open>ecindex\<close>
  as its two series \<open>E_index\<close> and \<open>C_index\<close> on the time axis of the field, \<open>pcs\<close> as the
  list of pairs (PC1, PC2) per time step, and \<open>pcs_djf\<close> as the two relabelled seasonal
  series.
\<close>

type_synonym rng_state = nat

type_synonym eof_fit = "rng_state \<Rightarrow> gridded_field \<Rightarrow> error + eof_model"

definition compute_index ::
  "eof_fit \<Rightarrow> rng_state \<Rightarrow> solver \<Rightarrow> arange_len \<Rightarrow> gridded_field \<Rightarrow> int \<times> int \<Rightarrow>
     error + index_result" where
  "compute_index eof_fit rng lstsq alen tos_anom base_period =
     (let tos = sel_lon 100 280 (sel_lat (- 20) 20 tos_anom) in
      case eof_fit rng (sel_time base_period tos) of
        Inl e \<Rightarrow> Inl e
      | Inr model \<Rightarrow>
          (let ps = scaled_pcs model tos in
           case seasonal_djf (zip (time tos) (map fst ps)) of
             Inl e \<Rightarrow> Inl e
           | Inr s1 \<Rightarrow>
               (case seasonal_djf (zip (time tos) (map snd ps)) of
                  Inl e \<Rightarrow> Inl e
                | Inr s2 \<Rightarrow>
                    (let pc1_djf = relabel s1; pc2_djf = relabel s2 in
                     case compute_alpha lstsq alen (map snd pc1_djf) (map snd pc2_djf) of
                       Inl e \<Rightarrow> Inl e
                     | Inr r \<Rightarrow>
                         Inr \<lparr>index_time = time tos,
                              E_index = map eindex ps,
                              C_index = map cindex ps,
                              pcs = ps,
                              pcs_djf = (pc1_djf, pc2_djf),
                              alpha = fst r,
                              xfit = fst (snd r),
                              fit = snd (snd r)\<rparr>))))"

section \<open>Notions used in the statements\<close>

text \<open>
  The decomposition returning the opposite sign for one mode: the spatial pattern of the
  mode (1 or 2 on the \<open>mode\<close> coordinate) is negated, everything else is unchanged.
\<close>

definition neg_grid :: "grid \<Rightarrow> grid" where
  "neg_grid g = map (map fl_neg) g"

datatype mode = Mode1 | Mode2

definition negate_mode :: "mode \<Rightarrow> eof_model \<Rightarrow> eof_model" where
  "negate_mode k m =
     m\<lparr>components :=
         (case k of
            Mode1 \<Rightarrow> (neg_grid (fst (components m)), snd (components m))
          | Mode2 \<Rightarrow> (fst (components m), neg_grid (snd (components m))))\<rparr>"

definition negate_fit :: "mode \<Rightarrow> eof_fit \<Rightarrow> eof_fit" where
  "negate_fit k eof_fit rng X =
     (case eof_fit rng X of Inl e \<Rightarrow> Inl e | Inr m \<Rightarrow> Inr (negate_mode k m))"

text \<open>
  The pattern of a mode, its mean over the reference box as \<open>correction_factor\<close> takes it,
  and the factor \<open>correction_factor\<close> returns for it.
\<close>

definition mode_pattern :: "mode \<Rightarrow> eof_model \<Rightarrow> grid" where
  "mode_pattern k m = (case k of Mode1 \<Rightarrow> fst (components m) | Mode2 \<Rightarrow> snd (components m))"

definition mode_mean :: "mode \<Rightarrow> eof_model \<Rightarrow> fl" where
  "mode_mean k m = box_mean m (mode_pattern k m)"

definition mode_factor :: "mode \<Rightarrow> eof_model \<Rightarrow> fl" where
  "mode_factor k m =
     (case k of Mode1 \<Rightarrow> fst (correction_factor m) | Mode2 \<Rightarrow> snd (correction_factor m))"

text \<open>A pattern multiplied by its correction factor.\<close>

definition scale_grid :: "fl \<Rightarrow> grid \<Rightarrow> grid" where
  "scale_grid c g = map (map (\<lambda>x. fl_mul x c)) g"




definition sel_box :: "gridded_field \<Rightarrow> gridded_field" where
  "sel_box f = sel_lon 100 280 (sel_lat (- 20) 20 f)"



text \<open>
  The winter season of the January year \<open>y\<close>: December of the year before, January and
  February of \<open>y\<close>; and the values a series holds for it.
\<close>

definition in_season :: "int \<Rightarrow> timestamp \<Rightarrow> bool" where
  "in_season y ts =
     (month ts = 12 \<and> year ts = y - 1 \<or> (month ts = 1 \<or> month ts = 2) \<and> year ts = y)"

definition season_values :: "series \<Rightarrow> int \<Rightarrow> fl list" where
  "season_values s y = map snd (filter (\<lambda>p. in_season y (fst p)) s)"

text \<open>
  The monthly series of the two principal components that \<open>compute_index\<close> returns, on the
  time axis it returns.
\<close>

definition pc1_series :: "index_result \<Rightarrow> series" where
  "pc1_series r = zip (index_time r) (map fst (pcs r))"

definition pc2_series :: "index_result \<Rightarrow> series" where
  "pc2_series r = zip (index_time r) (map snd (pcs r))"

text \<open>
  The NaN-skipping mean of some values is a value (not NaN) exactly when one of them at
  least is valid and the valid ones add up to a value, which fails only for infinite values
  of both signs.
\<close>

definition valid_mean :: "fl list \<Rightarrow> bool" where
  "valid_mean xs = ((\<exists>x \<in> set xs. x \<noteq> NaN) \<and> fl_sum (dropna_vals xs) \<noteq> NaN)"

text \<open>
  A field of all-zero anomalies, and properties of a fitted model that hold for the xeofs
  decomposition of such a field: its preprocessor (centring by the mean of the fitted data,
  which is zero, and weighting) maps an all-zero field to all-zero values, and its patterns
  have no infinite entry.
\<close>

definition all_zero :: "grid list \<Rightarrow> bool" where
  "all_zero gs = list_all (list_all (list_all (\<lambda>x. x = Fin 0))) gs"

definition zero_preserving :: "eof_model \<Rightarrow> bool" where
  "zero_preserving m = (\<forall>X. all_zero (vals X) \<longrightarrow> all_zero (preprocess m X))"

definition no_inf :: "grid \<Rightarrow> bool" where
  "no_inf g = list_all (list_all (\<lambda>c. c \<noteq> PInf \<and> c \<noteq> NInf)) g"

definition finite_patterns :: "eof_model \<Rightarrow> bool" where
  "finite_patterns m = (no_inf (fst (components m)) \<and> no_inf (snd (components m)))"

text \<open>The preprocessed data of a field have one snapshot for each of its time steps.\<close>

definition time_preserving :: "eof_model \<Rightarrow> gridded_field \<Rightarrow> bool" where
  "time_preserving m X = (length (preprocess m X) = length (time X))"

text \<open>A least-squares solver returns the zero polynomial for all-zero ordinates.\<close>

definition zero_fit_zero :: "solver \<Rightarrow> bool" where
  "zero_fit_zero lstsq =
     (\<forall>xs ys. list_all (\<lambda>y. y = Fin 0) ys \<longrightarrow> lstsq xs ys = (Fin 0, Fin 0, Fin 0))"

text \<open>
  The error that \<open>compute_index\<close> ends with when a principal component is NaN at every time
  step: \<open>ValueError\<close> from \<open>resample\<close> when the record has no December, January or
  February, and otherwise \<open>TypeError\<close> from \<open>polyfit\<close>, called on an empty seasonal series.
\<close>

definition nan_component_error :: "timestamp list \<Rightarrow> error" where
  "nan_component_error ts = (if filter (\<lambda>t. month t \<in> {12, 1, 2}) ts = [] then ValueError else TypeError)"

section \<open>A small run\<close>

text \<open>
  Concrete inputs on which the definitions are evaluated below. The field has four monthly
  time steps, December 1999 to February 2000 and December 2000, on a 2 x 2 grid of which
  one point lies in the tropical Pacific box; a second field has the same values at that
  point and another grid and other values, some missing, outside the box. The stand-in for
  the EOF fit returns, on the grid of the fitted data, the patterns \<open>1\<close> and \<open>-1\<close> and the
  explained variances \<open>1\<close> and \<open>4\<close>, and fails on a sample without time steps. The
  stand-in for the solver returns the coefficients of numpy's minimum-norm least-squares
  fit for the two inputs used below: \<open>(1/3, 1/6, 1/12)\<close> for the single point \<open>(2, 1)\<close>
  and \<open>(35/78, 29/156, 7/156)\<close> for the two points \<open>(2, 1)\<close> and \<open>(5, 5/2)\<close>. The
  stand-in for the length of \<open>arange\<close> is what the doubles give: \<open>2\<close> for
  \<open>arange(2.0, 2.1, 0.1)\<close> and the exact ceiling, \<open>31\<close> and \<open>1\<close>, for
  \<open>arange(2.0, 5.1, 0.1)\<close> and \<open>arange(0.0, 0.1, 0.1)\<close>.
\<close>

definition ymd :: "int \<Rightarrow> nat \<Rightarrow> nat \<Rightarrow> timestamp" where
  "ymd y mo d = \<lparr>year = y, month = mo, day = d\<rparr>"

definition example_time :: "timestamp list" where
  "example_time = [ymd 1999 12 1, ymd 2000 1 1, ymd 2000 2 1, ymd 2000 12 1]"

definition example_field :: gridded_field where
  "example_field =
     \<lparr>time = example_time,
      lat = [0, 30],
      lon = [160, 300],
      vals = [[[Fin 1, Fin 5], [Fin 7, Fin 7]],
              [[Fin 2, Fin 5], [Fin 7, Fin 7]],
              [[Fin 3, Fin 5], [Fin 7, Fin 7]],
              [[Fin 5, Fin 5], [Fin 7, Fin 7]]]\<rparr>"


definition example_tos :: gridded_field where
  "example_tos =
     \<lparr>time = example_time,
      lat = [0],
      lon = [160],
      vals = [[[Fin 1]], [[Fin 2]], [[Fin 3]], [[Fin 5]]]\<rparr>"

definition example_model :: eof_model where
  "example_model =
     \<lparr>comp_lat = [0],
      comp_lon = [160],
      components = ([[Fin 1]], [[Fin (- 1)]]),
      explained_variance = (Fin 1, Fin 4),
      preprocess = vals\<rparr>"

definition example_fit :: eof_fit where
  "example_fit rng X =
     (case vals X of
        [] \<Rightarrow> Inl FitError
      | g # gs \<Rightarrow>
          Inr \<lparr>comp_lat = lat X,
               comp_lon = lon X,
               components = (map (map (\<lambda>x. Fin 1)) g, map (map (\<lambda>x. Fin (- 1))) g),
               explained_variance = (Fin 1, Fin 4),
               preprocess = vals\<rparr>)"

definition example_lstsq :: solver where
  "example_lstsq x y =
     (if length x = 1 then (Fin (1 / 3), Fin (1 / 6), Fin (1 / 12))
      else (Fin (35 / 78), Fin (29 / 156), Fin (7 / 156)))"

definition example_alen :: arange_len where
  "example_alen a b st = (if a = 2 \<and> b = 21 / 10 then 2 else nat \<lceil>(b - a) / st\<rceil>)"

definition example_pcs :: "(fl \<times> fl) list" where
  "example_pcs = [(Fin 1, Fin (1 / 2)), (Fin 2, Fin 1), (Fin 3, Fin (3 / 2)), (Fin 5, Fin (5 / 2))]"

definition example_xfit :: "fl list" where
  "example_xfit = map (\<lambda>i. Fin (2 + real i * (1 / 10))) [0..<31]"

definition example_result :: index_result where
  "example_result =
     \<lparr>index_time = example_time,
      E_index = map eindex example_pcs,
      C_index = map cindex example_pcs,
      pcs = example_pcs,
      pcs_djf = ([(ymd 2000 12 1, Fin 2), (ymd 2001 12 1, Fin 5)],
                 [(ymd 2000 12 1, Fin 1), (ymd 2001 12 1, Fin (5 / 2))]),
      alpha = Fin (7 / 156),
      xfit = example_xfit,
      fit = map (\<lambda>x. polyval x (Fin (35 / 78), Fin (29 / 156), Fin (7 / 156))) example_xfit\<rparr>"

text \<open>
  Variants of the stand-in fit: the same model with other explained variances, and a fit
  whose second explained variance depends on the state of the random generator, as the
  output of a randomized solver does.
\<close>

definition with_variance :: "fl \<times> fl \<Rightarrow> eof_fit \<Rightarrow> eof_fit" where
  "with_variance ev eof_fit rng X =
     (case eof_fit rng X of Inl e \<Rightarrow> Inl e | Inr m \<Rightarrow> Inr (m\<lparr>explained_variance := ev\<rparr>))"


text \<open>A winter 1980/81 of which December is not in the record.\<close>

definition winter_1981_no_december :: series where
  "winter_1981_no_december = [(ymd 1981 1 1, Fin 1), (ymd 1981 2 1, Fin 3)]"

text \<open>
  The small run on all-zero anomalies: the field, the solver's answer for all-zero data,
  the result when the fit reports the variances \<open>1\<close> and \<open>4\<close>, and an all-zero record of
  a summer.
\<close>

definition zero_field :: gridded_field where
  "zero_field =
     \<lparr>time = example_time,
      lat = [0, 30],
      lon = [160, 300],
      vals = [[[Fin 0, Fin 0], [Fin 0, Fin 0]],
              [[Fin 0, Fin 0], [Fin 0, Fin 0]],
              [[Fin 0, Fin 0], [Fin 0, Fin 0]],
              [[Fin 0, Fin 0], [Fin 0, Fin 0]]]\<rparr>"

definition zero_tos :: gridded_field where
  "zero_tos =
     \<lparr>time = example_time,
      lat = [0],
      lon = [160],
      vals = [[[Fin 0]], [[Fin 0]], [[Fin 0]], [[Fin 0]]]\<rparr>"

definition summer_zero_field :: gridded_field where
  "summer_zero_field =
     \<lparr>time = [ymd 2000 6 1, ymd 2000 7 1, ymd 2000 8 1],
      lat = [0],
      lon = [160],
      vals = [[[Fin 0]], [[Fin 0]], [[Fin 0]]]\<rparr>"

definition zero_lstsq :: solver where
  "zero_lstsq x y = (Fin 0, Fin 0, Fin 0)"

definition zero_pcs :: "(fl \<times> fl) list" where
  "zero_pcs = [(Fin 0, Fin 0), (Fin 0, Fin 0), (Fin 0, Fin 0), (Fin 0, Fin 0)]"

definition nan_pcs :: "(fl \<times> fl) list" where
  "nan_pcs = [(NaN, NaN), (NaN, NaN), (NaN, NaN), (NaN, NaN)]"

definition zero_result :: index_result where
  "zero_result =
     \<lparr>index_time = example_time,
      E_index = [Fin 0, Fin 0, Fin 0, Fin 0],
      C_index = [Fin 0, Fin 0, Fin 0, Fin 0],
      pcs = zero_pcs,
      pcs_djf = ([(ymd 2000 12 1, Fin 0), (ymd 2001 12 1, Fin 0)],
                 [(ymd 2000 12 1, Fin 0), (ymd 2001 12 1, Fin 0)]),
      alpha = Fin 0,
      xfit = [Fin 0],
      fit = [Fin 0]\<rparr>"

text \<open>
  A pattern whose mean over the reference box is exactly zero, with a field to project:
  two grid points on the equator at 150 and 170 degrees east.
\<close>

definition zero_mean_model :: eof_model where
  "zero_mean_model =
     \<lparr>comp_lat = [0],
      comp_lon = [150, 170],
      components = ([[Fin 1, Fin (- 1)]], [[Fin 1, Fin 1]]),
      explained_variance = (Fin 1, Fin 1),
      preprocess = vals\<rparr>"

definition zero_mean_tos :: gridded_field where
  "zero_mean_tos =
     \<lparr>time = [ymd 1980 12 1], lat = [0], lon = [150, 170], vals = [[[Fin 3, Fin 1]]]\<rparr>"


section \<open>Evaluating the small run\<close>

lemma example_sel_box: "sel_lon 100 280 (sel_lat (- 20) 20 example_field) = example_tos"
  by (simp add: sel_lon_def sel_lat_def sel_coord_def sel_lat_grid_def sel_lon_grid_def
      example_field_def example_tos_def)

lemma example_sel_time: "sel_time (1999, 2000) example_tos = example_tos"
  by (simp add: sel_time_def in_years_def example_tos_def example_time_def ymd_def)

lemma example_fit_tos: "example_fit rng example_tos = Inr example_model"
  by (simp add: example_fit_def example_tos_def example_model_def)

lemma example_box_mean:
  "box_mean example_model [[Fin 1]] = Fin 1" "box_mean example_model [[Fin (- 1)]] = Fin (- 1)"
  by (simp_all add: box_mean_def example_model_def sel_lat_grid_def sel_lon_grid_def sel_coord_def
      fl_mean_def dropna_vals_def)

lemma example_components: "components example_model = ([[Fin 1]], [[Fin (- 1)]])"
  by (simp add: example_model_def)

lemma example_correction_factor: "correction_factor example_model = (Fin 1, Fin (- 1))"
  by (simp add: correction_factor_def example_components example_box_mean sign_factor_def)

lemma example_scale_factor: "scale_factor example_model = (Fin 1, Fin (1 / 2))"
  by (simp add: scale_factor_def example_model_def)

lemma example_transform:
  "transform example_model example_tos =
     [(Fin 1, Fin (- 1)), (Fin 2, Fin (- 2)), (Fin 3, Fin (- 3)), (Fin 5, Fin (- 5))]"
  by (simp add: transform_def project_def example_model_def example_tos_def)

lemma example_scaled_pcs: "scaled_pcs example_model example_tos = example_pcs"
  by (simp add: scaled_pcs_def example_transform example_scale_factor example_correction_factor
      example_pcs_def)

text \<open>The model with other explained variances: only the scale factor changes.\<close>

lemma variance_transform:
  "transform (m\<lparr>explained_variance := ev\<rparr>) X = transform m X"
  by (simp add: transform_def)

lemma variance_correction_factor:
  "correction_factor (m\<lparr>explained_variance := ev\<rparr>) = correction_factor m"
  by (simp add: correction_factor_def box_mean_def)

lemma variance_scale_factor:
  "scale_factor (m\<lparr>explained_variance := ev\<rparr>) =
     (fl_div (Fin 1) (fl_sqrt (fst ev)), fl_div (Fin 1) (fl_sqrt (snd ev)))"
  by (simp add: scale_factor_def)


text \<open>The seasonal series of a record of the four time steps of the small run.\<close>

lemma example_seasonal:
  "seasonal_djf (zip example_time [a, b, c, d]) =
     Inr (sel_time_from 1980 (dropna
       [(ymd 1999 12 1, fl_mean [a, b, c]), (ymd 2000 3 1, NaN), (ymd 2000 6 1, NaN),
        (ymd 2000 9 1, NaN), (ymd 2000 12 1, fl_mean [d])]))"
  by (simp add: seasonal_djf_def resample_QS_DEC_mean_def djf_months_def quarter_index_def
      quarter_start_def bin_values_def example_time_def ymd_def)
    (simp add: fl_mean_def dropna_vals_def)

lemma example_seasonal_pc1:
  "seasonal_djf (zip (time example_tos) (map fst example_pcs)) =
     Inr [(ymd 1999 12 1, Fin 2), (ymd 2000 12 1, Fin 5)]"
proof -
  have "seasonal_djf (zip example_time [Fin 1, Fin 2, Fin 3, Fin 5]) =
     Inr [(ymd 1999 12 1, Fin 2), (ymd 2000 12 1, Fin 5)]"
    unfolding example_seasonal
    by (simp add: sel_time_from_def dropna_def fl_mean_def dropna_vals_def ymd_def)
  then show ?thesis
    by (simp add: example_tos_def example_pcs_def)
qed

lemma example_seasonal_pc2:
  "seasonal_djf (zip (time example_tos) (map snd example_pcs)) =
     Inr [(ymd 1999 12 1, Fin 1), (ymd 2000 12 1, Fin (5 / 2))]"
proof -
  have "seasonal_djf (zip example_time [Fin (1 / 2), Fin 1, Fin (3 / 2), Fin (5 / 2)]) =
     Inr [(ymd 1999 12 1, Fin 1), (ymd 2000 12 1, Fin (5 / 2))]"
    unfolding example_seasonal
    by (simp add: sel_time_from_def dropna_def fl_mean_def dropna_vals_def ymd_def)
  then show ?thesis
    by (simp add: example_tos_def example_pcs_def)
qed

lemma relabel_december: "relabel [(ymd y 12 d, v)] = [(ymd (y + 1) 12 d, v)]"
  by (simp add: relabel_def add_one_year_def ymd_def)

lemma relabel_decembers:
  "relabel [(ymd y 12 d, v), (ymd y' 12 d', v')] = [(ymd (y + 1) 12 d, v), (ymd (y' + 1) 12 d', v')]"
  by (simp add: relabel_def add_one_year_def ymd_def)

lemma example_compute_alpha:
  "compute_alpha example_lstsq example_alen [Fin 2, Fin 5] [Fin 1, Fin (5 / 2)] =
     Inr (Fin (7 / 156), example_xfit,
          map (\<lambda>x. polyval x (Fin (35 / 78), Fin (29 / 156), Fin (7 / 156))) example_xfit)"
proof -
  have "example_alen 2 (51 / 10) (1 / 10) = 31"
    by (simp add: example_alen_def)
  then have "arange example_alen (Fin 2) (Fin (51 / 10)) (1 / 10) = Inr example_xfit"
    by (simp add: arange_def example_xfit_def)
  then show ?thesis
    by (simp add: compute_alpha_def polyfit_def example_lstsq_def dropna_vals_def fl_min_def
        fl_max_def)
qed

lemma one_point_compute_alpha:
  "compute_alpha example_lstsq example_alen [Fin 2] [Fin 1] =
     Inr (Fin (1 / 12), [Fin 2, Fin (21 / 10)], [Fin 1, Fin (1261 / 1200)])"
proof -
  have "example_alen 2 (21 / 10) (1 / 10) = 2"
    by (simp add: example_alen_def)
  then have "arange example_alen (Fin 2) (Fin (21 / 10)) (1 / 10) = Inr [Fin 2, Fin (21 / 10)]"
    by (simp add: arange_def upt_rec)
  then show ?thesis
    by (simp add: compute_alpha_def polyfit_def example_lstsq_def dropna_vals_def polyval_def)
qed

lemma compute_index_cases:
  "compute_index eof_fit rng lstsq alen f bp =
     (case eof_fit rng (sel_time bp (sel_box f)) of
        Inl e \<Rightarrow> Inl e
      | Inr m \<Rightarrow>
          (case seasonal_djf (zip (time (sel_box f)) (map fst (scaled_pcs m (sel_box f)))) of
             Inl e \<Rightarrow> Inl e
           | Inr s1 \<Rightarrow>
               (case seasonal_djf (zip (time (sel_box f)) (map snd (scaled_pcs m (sel_box f)))) of
                  Inl e \<Rightarrow> Inl e
                | Inr s2 \<Rightarrow>
                    (case compute_alpha lstsq alen (map snd (relabel s1)) (map snd (relabel s2)) of
                       Inl e \<Rightarrow> Inl e
                     | Inr ra \<Rightarrow>
                         Inr \<lparr>index_time = time (sel_box f),
                              E_index = map eindex (scaled_pcs m (sel_box f)),
                              C_index = map cindex (scaled_pcs m (sel_box f)),
                              pcs = scaled_pcs m (sel_box f),
                              pcs_djf = (relabel s1, relabel s2),
                              alpha = fst ra, xfit = fst (snd ra), fit = snd (snd ra)\<rparr>))))"
  unfolding compute_index_def sel_box_def Let_def ..

lemma example_sel_box': "sel_box example_field = example_tos"
  by (simp add: sel_box_def example_sel_box)

lemma example_compute_index:
  "compute_index example_fit rng example_lstsq example_alen example_field (1999, 2000) =
     Inr example_result"
  by (simp add: compute_index_cases example_sel_box' example_sel_time example_fit_tos
      example_scaled_pcs example_seasonal_pc1 example_seasonal_pc2 relabel_decembers
      example_compute_alpha example_result_def)
    (simp add: example_tos_def)


section \<open>Arithmetic of the special values\<close>

lemma fl_neg_neg [simp]: "fl_neg (fl_neg x) = x"
  by (cases x) simp_all

lemma fl_neg_eq_NaN [simp]: "(fl_neg x = NaN) = (x = NaN)"
  by (cases x) simp_all

lemma fl_mul_neg_right: "fl_mul x (fl_neg y) = fl_neg (fl_mul x y)"
  by (cases x; cases y) simp_all

lemma fl_mul_neg_left: "fl_mul (fl_neg x) y = fl_neg (fl_mul x y)"
  by (cases x; cases y) simp_all

lemma fl_add_neg: "fl_add (fl_neg x) (fl_neg y) = fl_neg (fl_add x y)"
  by (cases x; cases y) simp_all

lemma fl_div_neg_left: "fl_div (fl_neg x) y = fl_neg (fl_div x y)"
  by (cases x; cases y) simp_all

lemma fl_mul_one_right [simp]: "fl_mul x (Fin 1) = x"
  by (cases x) simp_all

lemma fl_mul_minus_one_right: "fl_mul x (Fin (- 1)) = fl_neg x"
  by (cases x) simp_all

lemma fl_sum_neg: "fl_sum (map fl_neg xs) = fl_neg (fl_sum xs)"
  by (induction xs) (simp_all add: fl_add_neg)

lemma dropna_vals_neg: "dropna_vals (map fl_neg xs) = map fl_neg (dropna_vals xs)"
  by (induction xs) (simp_all add: dropna_vals_def)

lemma fl_mean_neg: "fl_mean (map fl_neg xs) = fl_neg (fl_mean xs)"
  by (simp add: fl_mean_def Let_def dropna_vals_neg fl_sum_neg fl_div_neg_left)

lemma sel_coord_map: "sel_coord lo hi cs (map f xs) = map f (sel_coord lo hi cs xs)"
proof (induction cs arbitrary: xs)
  case Nil
  then show ?case by (simp add: sel_coord_def)
next
  case (Cons c cs)
  then show ?case by (cases xs) (simp_all add: sel_coord_def)
qed

lemma box_cells_neg:
  "concat (sel_lon_grid a b lons (sel_lat_grid c d lats (neg_grid g))) =
   map fl_neg (concat (sel_lon_grid a b lons (sel_lat_grid c d lats g)))"
proof -
  have "sel_lon_grid a b lons (sel_lat_grid c d lats (neg_grid g)) =
        map (map fl_neg) (sel_lon_grid a b lons (sel_lat_grid c d lats g))"
    by (simp add: neg_grid_def sel_lat_grid_def sel_lon_grid_def sel_coord_map)
  then show ?thesis
    by (simp add: map_concat)
qed

lemma box_mean_neg: "box_mean m (neg_grid g) = fl_neg (box_mean m g)"
  by (simp add: box_mean_def box_cells_neg fl_mean_neg)

lemma box_mean_cong: "comp_lat m = comp_lat m' \<Longrightarrow> comp_lon m = comp_lon m' \<Longrightarrow> box_mean m g = box_mean m' g"
  by (simp add: box_mean_def)

lemma sign_factor_cases: "sign_factor mu = Fin 1 \<or> sign_factor mu = Fin (- 1)"
  by (simp add: sign_factor_def)

lemma sign_factor_neg:
  "mu \<noteq> NaN \<Longrightarrow> mu \<noteq> Fin 0 \<Longrightarrow> sign_factor (fl_neg mu) = fl_neg (sign_factor mu)"
  by (cases mu) (simp_all add: sign_factor_def)

lemma scale_grid_minus_one: "scale_grid (Fin (- 1)) g = neg_grid g"
  by (simp add: scale_grid_def neg_grid_def fl_mul_minus_one_right)

lemma scale_grid_one: "scale_grid (Fin 1) g = g"
  by (simp add: scale_grid_def)

lemma mode_factor_sign: "mode_factor k m = sign_factor (mode_mean k m)"
  by (cases k) (simp_all add: mode_factor_def mode_mean_def mode_pattern_def correction_factor_def)

section \<open>The sign-correction factor\<close>

text \<open>
  Claim C9, as the code has it. For each of the two modes the factor of \<open>correction_factor\<close>
  is \<open>+1\<close> or \<open>-1\<close>; it is \<open>+1\<close> exactly when the mean of the mode's pattern over
  the box 5S-5N, 140-180E is positive, and \<open>-1\<close> in every other case (a negative, a zero
  or an undefined mean). Whenever that mean is defined and not zero, the mean of the
  corrected pattern over the box is positive.
\<close>

theorem correction_factor_sign:
  "(mode_factor k m = Fin 1 \<or> mode_factor k m = Fin (- 1)) \<and>
   (mode_factor k m = Fin 1 \<longleftrightarrow> fl_gt (mode_mean k m) (Fin 0)) \<and>
   (mode_factor k m = Fin (- 1) \<longleftrightarrow> \<not> fl_gt (mode_mean k m) (Fin 0)) \<and>
   (mode_mean k m \<noteq> NaN \<and> mode_mean k m \<noteq> Fin 0 \<longrightarrow>
      fl_gt (box_mean m (scale_grid (mode_factor k m) (mode_pattern k m))) (Fin 0))"
proof -
  let ?mu = "box_mean m (mode_pattern k m)"
  have pos: "fl_gt (box_mean m (scale_grid (sign_factor ?mu) (mode_pattern k m))) (Fin 0)"
    if "?mu \<noteq> NaN" "?mu \<noteq> Fin 0"
  proof (cases "fl_gt ?mu (Fin 0)")
    case True
    then show ?thesis by (simp add: sign_factor_def scale_grid_one)
  next
    case False
    with that have "fl_gt (fl_neg ?mu) (Fin 0)"
      by (cases ?mu) simp_all
    with False show ?thesis
      by (simp add: sign_factor_def scale_grid_minus_one box_mean_neg)
  qed
  show ?thesis
    using pos by (simp add: mode_factor_sign mode_mean_def sign_factor_def)
qed

lemma example_mode2:
  "mode_pattern Mode2 example_model = [[Fin (- 1)]]" "mode_mean Mode2 example_model = Fin (- 1)"
  "mode_factor Mode2 example_model = Fin (- 1)"
  by (simp_all add: mode_pattern_def mode_mean_def mode_factor_def example_components
      example_box_mean example_correction_factor)

text \<open>The second mode of the small run has the box mean \<open>-1\<close>: its factor is \<open>-1\<close>.\<close>

theorem correction_factor_sign_witness:
  "mode_mean Mode2 example_model = Fin (- 1) \<and> mode_factor Mode2 example_model = Fin (- 1) \<and>
   fl_gt (box_mean example_model (scale_grid (Fin (- 1)) [[Fin (- 1)]])) (Fin 0)"
  using correction_factor_sign [of Mode2 example_model] by (simp add: example_mode2)

lemma zero_mean_components:
  "components zero_mean_model = ([[Fin 1, Fin (- 1)]], [[Fin 1, Fin 1]])"
  by (simp add: zero_mean_model_def)

lemma zero_mean_box_mean:
  "box_mean zero_mean_model [[Fin 1, Fin (- 1)]] = Fin 0"
  "box_mean zero_mean_model [[Fin (- 1), Fin 1]] = Fin 0"
  "box_mean zero_mean_model [[Fin 1, Fin 1]] = Fin 1"
  by (simp_all add: box_mean_def zero_mean_model_def sel_lat_grid_def sel_lon_grid_def
      sel_coord_def fl_mean_def dropna_vals_def)

lemma zero_mean_mode1:
  "mode_pattern Mode1 zero_mean_model = [[Fin 1, Fin (- 1)]]" "mode_mean Mode1 zero_mean_model = Fin 0"
  "mode_factor Mode1 zero_mean_model = Fin (- 1)"
  by (simp_all add: mode_pattern_def mode_mean_def mode_factor_def zero_mean_components
      zero_mean_box_mean correction_factor_def sign_factor_def)

text \<open>
  A pattern with the values \<open>1\<close> and \<open>-1\<close> in the box has the mean zero there, which is
  not negative; the factor is \<open>-1\<close> all the same, and the corrected pattern's mean is zero,
  not positive.
\<close>

theorem correction_factor_zero_mean:
  "mode_mean Mode1 zero_mean_model = Fin 0 \<and>
   \<not> fl_gt (Fin 0) (mode_mean Mode1 zero_mean_model) \<and>
   mode_factor Mode1 zero_mean_model = Fin (- 1) \<and>
   \<not> fl_gt (box_mean zero_mean_model
         (scale_grid (mode_factor Mode1 zero_mean_model) (mode_pattern Mode1 zero_mean_model))) (Fin 0)"
  by (simp add: zero_mean_mode1 scale_grid_def zero_mean_box_mean)

section \<open>The quadratic fit\<close>

lemma fl_min_fin: "is_fin x \<Longrightarrow> is_fin y \<Longrightarrow> is_fin (fl_min x y)"
  by (simp add: fl_min_def)

lemma fl_max_fin: "is_fin x \<Longrightarrow> is_fin y \<Longrightarrow> is_fin (fl_max x y)"
  by (simp add: fl_max_def)

lemma fold_fl_min_fin: "is_fin v \<Longrightarrow> list_all is_fin vs \<Longrightarrow> is_fin (fold fl_min vs v)"
  by (induction vs arbitrary: v) (simp_all add: fl_min_fin)

lemma fold_fl_max_fin: "is_fin v \<Longrightarrow> list_all is_fin vs \<Longrightarrow> is_fin (fold fl_max vs v)"
  by (induction vs arbitrary: v) (simp_all add: fl_max_fin)

lemma dropna_vals_fin: "list_all is_fin xs \<Longrightarrow> dropna_vals xs = xs"
  by (induction xs) (auto simp: dropna_vals_def)

lemma arange_fin:
  "is_fin a \<Longrightarrow> is_fin b \<Longrightarrow> \<exists>xs. arange alen a (fl_add b (Fin c)) st = Inr xs"
  by (cases a; cases b) (simp_all add: arange_def)

lemma compute_alpha_empty: "compute_alpha lstsq alen [] pc2 = Inl TypeError"
  by (simp add: compute_alpha_def polyfit_def)

lemma compute_alpha_length:
  "length pc1 \<noteq> length pc2 \<Longrightarrow> compute_alpha lstsq alen pc1 pc2 = Inl TypeError"
  by (simp add: compute_alpha_def polyfit_def)

lemma compute_alpha_returns:
  assumes "list_all is_fin pc1" and "pc1 \<noteq> []" and "length pc1 = length pc2"
  shows "\<exists>xs ys. compute_alpha lstsq alen pc1 pc2 = Inr (snd (snd (lstsq pc1 pc2)), xs, ys)"
proof -
  from assms(2) obtain v vs where pc1: "pc1 = v # vs"
    by (cases pc1) auto
  with assms(1) have fin: "is_fin v" "list_all is_fin vs"
    by simp_all
  from arange_fin [OF fold_fl_min_fin [OF fin] fold_fl_max_fin [OF fin]]
  obtain xs where
    "arange alen (fold fl_min vs v) (fl_add (fold fl_max vs v) (Fin (1 / 10))) (1 / 10) = Inr xs"
    by blast
  then show ?thesis
    using assms pc1 by (simp add: compute_alpha_def polyfit_def dropna_vals_fin)
qed

lemma compute_alpha_Inr:
  assumes "compute_alpha lstsq alen xs ys = Inr r"
  shows "xs \<noteq> []" and "length xs = length ys" and "list_all is_fin xs"
    and "fst r = snd (snd (lstsq xs ys))"
  using assms
  by (auto simp: compute_alpha_def polyfit_def split: if_splits list.splits sum.splits)

lemma compute_alpha_no_ordinates: "compute_alpha lstsq alen xs [] = Inl TypeError"
  by (cases "xs = []") (simp_all add: compute_alpha_empty compute_alpha_length)

text \<open>
  Claim C3, as the code has it. On finite seasonal values, \<open>compute_alpha\<close> fails exactly
  when there is no seasonal point at all (or the two series differ in length), with the
  \<open>TypeError\<close> of \<open>polyfit\<close>. With one point or more, fewer than three included, it
  returns the quadratic coefficient that the least-squares solver delivers.
\<close>

theorem compute_alpha_failure:
  assumes "list_all is_fin pc1"
  shows "(pc1 = [] \<or> length pc1 \<noteq> length pc2 \<longrightarrow>
            compute_alpha lstsq alen pc1 pc2 = Inl TypeError) \<and>
         (pc1 \<noteq> [] \<and> length pc1 = length pc2 \<longrightarrow>
            (\<exists>xs ys. compute_alpha lstsq alen pc1 pc2 = Inr (snd (snd (lstsq pc1 pc2)), xs, ys)))"
  using compute_alpha_returns [OF assms] compute_alpha_empty compute_alpha_length
  by blast

text \<open>No point: the fit fails. The single point \<open>(2, 1)\<close>: a coefficient is returned.\<close>

theorem compute_alpha_failure_witness:
  "compute_alpha example_lstsq example_alen [] [] = Inl TypeError \<and>
   (\<exists>xs ys. compute_alpha example_lstsq example_alen [Fin 2] [Fin 1] = Inr (Fin (1 / 12), xs, ys))"
  using compute_alpha_failure [of "[]" "[]" example_lstsq example_alen]
    compute_alpha_failure [of "[Fin 2]" "[Fin 1]" example_lstsq example_alen]
  by (simp add: example_lstsq_def)

text \<open>
  One seasonal point, \<open>PC1 = 2\<close> and \<open>PC2 = 1\<close>: whatever the solver and the length of
  \<open>arange\<close>, \<open>compute_alpha\<close> does not fail; with the coefficients of the minimum-norm
  fit and the two abscissae \<open>2.0\<close> and \<open>2.1\<close> of \<open>arange(2.0, 2.1, 0.1)\<close> it returns
  \<open>alpha = 1/12\<close>.
\<close>

theorem compute_alpha_one_point:
  "(\<forall>lstsq alen. \<not> isl (compute_alpha lstsq alen [Fin 2] [Fin 1])) \<and>
   compute_alpha example_lstsq example_alen [Fin 2] [Fin 1] =
     Inr (Fin (1 / 12), [Fin 2, Fin (21 / 10)], [Fin 1, Fin (1261 / 1200)])"
  by (simp add: one_point_compute_alpha)
    (simp add: compute_alpha_def polyfit_def dropna_vals_def arange_def)

section \<open>The rotation to E and C\<close>

lemma two_powr_half: "2 powr (1 / 2) = sqrt 2"
  by (simp add: powr_half_sqrt)

lemma eindex_sqrt: "eindex p = fl_div (fl_sub (fst p) (snd p)) (Fin (sqrt 2))"
  by (simp add: eindex_def two_powr_half)

lemma cindex_sqrt: "cindex p = fl_div (fl_add (fst p) (snd p)) (Fin (sqrt 2))"
  by (simp add: cindex_def two_powr_half)

lemma compute_index_Inr:
  assumes "compute_index eof_fit rng lstsq alen tos_anom base_period = Inr r"
  obtains model s1 s2 ra where
    "eof_fit rng (sel_time base_period (sel_box tos_anom)) = Inr model"
    "pcs r = scaled_pcs model (sel_box tos_anom)"
    "E_index r = map eindex (pcs r)"
    "C_index r = map cindex (pcs r)"
    "index_time r = time (sel_box tos_anom)"
    "seasonal_djf (zip (index_time r) (map fst (pcs r))) = Inr s1"
    "seasonal_djf (zip (index_time r) (map snd (pcs r))) = Inr s2"
    "pcs_djf r = (relabel s1, relabel s2)"
    "compute_alpha lstsq alen (map snd (relabel s1)) (map snd (relabel s2)) = Inr ra"
    "alpha r = fst ra"
  using assms
  by (auto simp: compute_index_cases split: sum.splits)

text \<open>
  Claim C1. Whenever \<open>compute_index\<close> returns, the returned principal components are the
  projections of the full series (restricted to the tropical Pacific box) on the fitted
  patterns, scaled and sign-corrected, and at every time step
  \<open>E = (PC1 - PC2) / sqrt 2\<close> and \<open>C = (PC1 + PC2) / sqrt 2\<close>.
\<close>

theorem compute_index_rotation:
  assumes "compute_index eof_fit rng lstsq alen tos_anom base_period = Inr r"
  shows "\<exists>model. eof_fit rng (sel_time base_period (sel_box tos_anom)) = Inr model \<and>
           pcs r = scaled_pcs model (sel_box tos_anom) \<and>
           length (E_index r) = length (pcs r) \<and> length (C_index r) = length (pcs r) \<and>
           (\<forall>t < length (pcs r).
              E_index r ! t = fl_div (fl_sub (fst (pcs r ! t)) (snd (pcs r ! t))) (Fin (sqrt 2)) \<and>
              C_index r ! t = fl_div (fl_add (fst (pcs r ! t)) (snd (pcs r ! t))) (Fin (sqrt 2)))"
proof -
  from assms obtain model where m:
    "eof_fit rng (sel_time base_period (sel_box tos_anom)) = Inr model"
    "pcs r = scaled_pcs model (sel_box tos_anom)"
    "E_index r = map eindex (pcs r)" "C_index r = map cindex (pcs r)"
    by (rule compute_index_Inr)
  have "length (E_index r) = length (pcs r)" "length (C_index r) = length (pcs r)"
    using m(3,4) by simp_all
  moreover have "E_index r ! t = fl_div (fl_sub (fst (pcs r ! t)) (snd (pcs r ! t))) (Fin (sqrt 2))"
    and "C_index r ! t = fl_div (fl_add (fst (pcs r ! t)) (snd (pcs r ! t))) (Fin (sqrt 2))"
    if "t < length (pcs r)" for t
    using that m(3,4) by (simp_all add: eindex_sqrt cindex_sqrt)
  ultimately show ?thesis
    using m(1,2) by blast
qed

lemma example_result_pcs: "pcs example_result = example_pcs"
  by (simp add: example_result_def)

lemma example_pcs_1: "example_pcs ! Suc 0 = (Fin 2, Fin 1)" "length example_pcs = 4"
  by (simp_all add: example_pcs_def)

text \<open>The small run, at its second time step.\<close>

theorem compute_index_rotation_witness:
  "compute_index example_fit 0 example_lstsq example_alen example_field (1999, 2000) =
     Inr example_result \<and>
   E_index example_result ! 1 = fl_div (fl_sub (Fin 2) (Fin 1)) (Fin (sqrt 2)) \<and>
   C_index example_result ! 1 = fl_div (fl_add (Fin 2) (Fin 1)) (Fin (sqrt 2))"
proof -
  from compute_index_rotation [OF example_compute_index [of 0]]
  have "\<forall>t < length (pcs example_result).
          E_index example_result ! t =
            fl_div (fl_sub (fst (pcs example_result ! t)) (snd (pcs example_result ! t))) (Fin (sqrt 2)) \<and>
          C_index example_result ! t =
            fl_div (fl_add (fst (pcs example_result ! t)) (snd (pcs example_result ! t))) (Fin (sqrt 2))"
    by blast
  then have "E_index example_result ! 1 =
            fl_div (fl_sub (fst (pcs example_result ! 1)) (snd (pcs example_result ! 1))) (Fin (sqrt 2)) \<and>
          C_index example_result ! 1 =
            fl_div (fl_add (fst (pcs example_result ! 1)) (snd (pcs example_result ! 1))) (Fin (sqrt 2))"
    by (simp add: example_result_pcs example_pcs_1)
  then show ?thesis
    using example_compute_index [of 0] by (simp add: example_result_pcs example_pcs_1)
qed









section \<open>Sign invariance\<close>

lemma dot_neg:
  "fl_sum (map (\<lambda>p. fl_mul (fst p) (snd p)) (filter (\<lambda>p. snd p \<noteq> NaN) (zip xs (map fl_neg ys)))) =
   fl_neg (fl_sum (map (\<lambda>p. fl_mul (fst p) (snd p)) (filter (\<lambda>p. snd p \<noteq> NaN) (zip xs ys))))"
proof (induction xs arbitrary: ys)
  case Nil
  then show ?case by simp
next
  case (Cons x xs)
  then show ?case
    by (cases ys) (simp_all add: fl_mul_neg_right fl_add_neg)
qed

lemma project_neg: "project snap (neg_grid pat) = fl_neg (project snap pat)"
  by (simp add: project_def neg_grid_def map_concat [symmetric] dot_neg)

lemma box_mean_negate_mode: "box_mean (negate_mode k m) g = box_mean m g"
  by (simp add: box_mean_def negate_mode_def)

lemma scale_factor_negate_mode: "scale_factor (negate_mode k m) = scale_factor m"
  by (simp add: scale_factor_def negate_mode_def)

lemma transform_negate_mode:
  "transform (negate_mode k m) X =
     map (\<lambda>s. case k of Mode1 \<Rightarrow> (fl_neg (fst s), snd s) | Mode2 \<Rightarrow> (fst s, fl_neg (snd s)))
       (transform m X)"
  by (cases k) (simp_all add: transform_def negate_mode_def project_neg)

lemma correction_factor_negate_mode:
  assumes "mode_mean k m \<noteq> NaN" and "mode_mean k m \<noteq> Fin 0"
  shows "correction_factor (negate_mode k m) =
     (case k of Mode1 \<Rightarrow> (fl_neg (fst (correction_factor m)), snd (correction_factor m))
              | Mode2 \<Rightarrow> (fst (correction_factor m), fl_neg (snd (correction_factor m))))"
proof (cases k)
  case Mode1
  with assms have "sign_factor (fl_neg (box_mean m (fst (components m)))) =
      fl_neg (sign_factor (box_mean m (fst (components m))))"
    by (simp add: sign_factor_neg mode_mean_def mode_pattern_def)
  with Mode1 show ?thesis
    by (simp add: correction_factor_def box_mean_negate_mode box_mean_neg)
      (simp add: negate_mode_def box_mean_neg)
next
  case Mode2
  with assms have "sign_factor (fl_neg (box_mean m (snd (components m)))) =
      fl_neg (sign_factor (box_mean m (snd (components m))))"
    by (simp add: sign_factor_neg mode_mean_def mode_pattern_def)
  with Mode2 show ?thesis
    by (simp add: correction_factor_def box_mean_negate_mode box_mean_neg)
      (simp add: negate_mode_def box_mean_neg)
qed

lemma scaled_pcs_negate_mode:
  assumes "mode_mean k m \<noteq> NaN" and "mode_mean k m \<noteq> Fin 0"
  shows "scaled_pcs (negate_mode k m) X = scaled_pcs m X"
proof (cases k)
  case Mode1
  with assms have "correction_factor (negate_mode Mode1 m) =
      (fl_neg (fst (correction_factor m)), snd (correction_factor m))"
    using correction_factor_negate_mode [of Mode1 m] by simp
  then show ?thesis
    unfolding Mode1
    by (simp add: scaled_pcs_def transform_negate_mode scale_factor_negate_mode comp_def
        fl_mul_neg_left fl_mul_neg_right)
next
  case Mode2
  with assms have "correction_factor (negate_mode Mode2 m) =
      (fst (correction_factor m), fl_neg (snd (correction_factor m)))"
    using correction_factor_negate_mode [of Mode2 m] by simp
  then show ?thesis
    unfolding Mode2
    by (simp add: scaled_pcs_def transform_negate_mode scale_factor_negate_mode comp_def
        fl_mul_neg_left fl_mul_neg_right)
qed

lemma compute_index_pcs_cong:
  assumes "eof_fit rng (sel_time bp (sel_box f)) = Inr m"
    and "eof_fit' rng' (sel_time bp (sel_box f)) = Inr m'"
    and "scaled_pcs m (sel_box f) = scaled_pcs m' (sel_box f)"
  shows "compute_index eof_fit rng lstsq alen f bp = compute_index eof_fit' rng' lstsq alen f bp"
  unfolding compute_index_cases assms(1,2) sum.case assms(3) ..

text \<open>
  Claim C2, as the code has it. Let the decomposition return the opposite sign for the
  pattern of one mode. If the mean of that pattern over the reference box is defined and not
  zero, \<open>compute_index\<close> returns exactly what it returned before: the correction factor
  flips with the pattern, so the principal components, E, C and all that is derived from
  them are unchanged.
\<close>

theorem sign_invariance:
  assumes "\<forall>m. eof_fit rng (sel_time base_period (sel_box tos_anom)) = Inr m \<longrightarrow>
             mode_mean k m \<noteq> NaN \<and> mode_mean k m \<noteq> Fin 0"
  shows "compute_index (negate_fit k eof_fit) rng lstsq alen tos_anom base_period =
         compute_index eof_fit rng lstsq alen tos_anom base_period"
proof (cases "eof_fit rng (sel_time base_period (sel_box tos_anom))")
  case (Inl e)
  then show ?thesis
    by (simp add: compute_index_cases negate_fit_def)
next
  case (Inr m)
  with assms have "scaled_pcs (negate_mode k m) (sel_box tos_anom) = scaled_pcs m (sel_box tos_anom)"
    by (simp add: scaled_pcs_negate_mode)
  with Inr show ?thesis
    by (intro compute_index_pcs_cong [where m = "negate_mode k m" and m' = m])
      (simp_all add: negate_fit_def)
qed

lemma example_fit_model:
  "example_fit rng (sel_time (1999, 2000) (sel_box example_field)) = Inr example_model"
  by (simp add: example_sel_box' example_sel_time example_fit_tos)

text \<open>The small run with the second pattern negated: the same result.\<close>

theorem sign_invariance_witness:
  "mode_mean Mode2 example_model = Fin (- 1) \<and>
   compute_index (negate_fit Mode2 example_fit) 0 example_lstsq example_alen example_field
     (1999, 2000) = Inr example_result"
proof -
  have "\<forall>m. example_fit 0 (sel_time (1999, 2000) (sel_box example_field)) = Inr m \<longrightarrow>
          mode_mean Mode2 m \<noteq> NaN \<and> mode_mean Mode2 m \<noteq> Fin 0"
    by (simp add: example_fit_model example_mode2)
  with sign_invariance [where eof_fit = example_fit and base_period = "(1999, 2000)"
      and tos_anom = example_field and k = Mode2 and lstsq = example_lstsq and rng = 0
      and alen = example_alen]
  show ?thesis
    by (simp add: example_compute_index example_mode2)
qed

lemma zero_mean_scaled_pcs:
  "scaled_pcs zero_mean_model zero_mean_tos = [(Fin (- 2), Fin 4)]"
  "scaled_pcs (negate_mode Mode1 zero_mean_model) zero_mean_tos = [(Fin 2, Fin 4)]"
proof -
  have t: "transform zero_mean_model zero_mean_tos = [(Fin 2, Fin 4)]"
    by (simp add: transform_def project_def zero_mean_model_def zero_mean_tos_def)
  have s: "scale_factor zero_mean_model = (Fin 1, Fin 1)"
    by (simp add: scale_factor_def zero_mean_model_def)
  have c: "correction_factor zero_mean_model = (Fin (- 1), Fin 1)"
    by (simp add: correction_factor_def zero_mean_components zero_mean_box_mean sign_factor_def)
  show "scaled_pcs zero_mean_model zero_mean_tos = [(Fin (- 2), Fin 4)]"
    by (simp add: scaled_pcs_def t s c)
  have c': "correction_factor (negate_mode Mode1 zero_mean_model) = (Fin (- 1), Fin 1)"
    by (simp add: correction_factor_def box_mean_negate_mode)
      (simp add: negate_mode_def zero_mean_components neg_grid_def zero_mean_box_mean sign_factor_def)
  show "scaled_pcs (negate_mode Mode1 zero_mean_model) zero_mean_tos = [(Fin 2, Fin 4)]"
    by (simp add: scaled_pcs_def transform_negate_mode t scale_factor_negate_mode s c')
qed

text \<open>
  A first pattern with the values \<open>1\<close> and \<open>-1\<close> in the box has the mean zero there. The
  correction factor is \<open>-1\<close> for the pattern and for its negation alike, so negating the
  pattern changes the first principal component from \<open>-2\<close> to \<open>2\<close> and with it the E
  index.
\<close>

theorem sign_not_fixed_at_zero_mean:
  "mode_mean Mode1 zero_mean_model = Fin 0 \<and>
   scaled_pcs zero_mean_model zero_mean_tos = [(Fin (- 2), Fin 4)] \<and>
   scaled_pcs (negate_mode Mode1 zero_mean_model) zero_mean_tos = [(Fin 2, Fin 4)] \<and>
   map eindex (scaled_pcs (negate_mode Mode1 zero_mean_model) zero_mean_tos) \<noteq>
     map eindex (scaled_pcs zero_mean_model zero_mean_tos)"
  by (simp add: zero_mean_mode1 zero_mean_scaled_pcs eindex_sqrt fl_sub_def)


section \<open>Values outside the tropical Pacific box\<close>

















section \<open>Seasonal means\<close>

lemma fold_min_le: "x \<in> set (q # qs) \<Longrightarrow> fold min qs q \<le> (x::int)"
proof (induction qs arbitrary: q x)
  case Nil
  then show ?case by simp
next
  case (Cons a qs)
  have "fold min qs (min a q) \<le> min a q"
    by (rule Cons.IH) simp
  moreover have "x \<in> set qs \<Longrightarrow> fold min qs (min a q) \<le> x"
    by (rule Cons.IH) simp
  ultimately show ?case
    using Cons.prems by auto
qed

lemma fold_max_ge: "x \<in> set (q # qs) \<Longrightarrow> (x::int) \<le> fold max qs q"
proof (induction qs arbitrary: q x)
  case Nil
  then show ?case by simp
next
  case (Cons a qs)
  have "max a q \<le> fold max qs (max a q)"
    by (rule Cons.IH) simp
  moreover have "x \<in> set qs \<Longrightarrow> x \<le> fold max qs (max a q)"
    by (rule Cons.IH) simp
  ultimately show ?case
    using Cons.prems by auto
qed

lemma fl_mean_not_NaN_nonempty: "fl_mean xs \<noteq> NaN \<Longrightarrow> xs \<noteq> []"
  by (auto simp: fl_mean_def dropna_vals_def)

lemma resample_fails: "resample_QS_DEC_mean d = Inl e \<longleftrightarrow> d = [] \<and> e = ValueError"
  by (auto simp: resample_QS_DEC_mean_def split: list.splits)

lemma resample_empty: "resample_QS_DEC_mean [] = Inl ValueError"
  by (simp add: resample_QS_DEC_mean_def)

lemma seasonal_djf_fails: "seasonal_djf s = Inl e \<longleftrightarrow> djf_months s = [] \<and> e = ValueError"
  by (cases "resample_QS_DEC_mean (djf_months s)")
    (auto simp: seasonal_djf_def resample_fails resample_empty)

lemma resample_iff:
  assumes "resample_QS_DEC_mean d = Inr b"
  shows "(ts, v) \<in> set (dropna b) \<longleftrightarrow>
   (\<exists>k. ts = quarter_start k \<and> v = fl_mean (bin_values d k) \<and> v \<noteq> NaN)"
proof
  assume "(ts, v) \<in> set (dropna b)"
  then show "\<exists>k. ts = quarter_start k \<and> v = fl_mean (bin_values d k) \<and> v \<noteq> NaN"
    using assms by (auto simp: dropna_def resample_QS_DEC_mean_def split: list.splits)
next
  assume "\<exists>k. ts = quarter_start k \<and> v = fl_mean (bin_values d k) \<and> v \<noteq> NaN"
  then obtain k where k: "ts = quarter_start k" "v = fl_mean (bin_values d k)" "v \<noteq> NaN"
    by blast
  then have "bin_values d k \<noteq> []"
    using fl_mean_not_NaN_nonempty by blast
  then obtain p where p: "p \<in> set d" "quarter_index (fst p) = k"
    by (auto simp: bin_values_def filter_empty_conv)
  then obtain q qs where qs: "map (\<lambda>p. quarter_index (fst p)) d = q # qs"
    by (cases d) auto
  from p have "k \<in> set (map (\<lambda>p. quarter_index (fst p)) d)"
    by force
  then have "k \<in> set (q # qs)"
    by (simp add: qs)
  then have "fold min qs q \<le> k" "k \<le> fold max qs q"
    by (rule fold_min_le, rule fold_max_ge)
  then have "(ts, v) \<in> set b"
    using k assms by (auto simp: resample_QS_DEC_mean_def qs)
  then show "(ts, v) \<in> set (dropna b)"
    using k by (simp add: dropna_def)
qed

lemma djf_quarter_index:
  "month ts \<in> {12, 1, 2} \<and> quarter_index ts = 4 * y - 1 \<longleftrightarrow> in_season y ts"
  by (auto simp: quarter_index_def in_season_def)

lemma bin_values_djf: "bin_values (djf_months s) (4 * y - 1) = season_values s y"
proof -
  have "filter (\<lambda>p. quarter_index (fst p) = 4 * y - 1) (filter (\<lambda>p. month (fst p) \<in> {12, 1, 2}) s) =
        filter (\<lambda>p. in_season y (fst p)) s"
    unfolding filter_filter djf_quarter_index [symmetric] by (rule filter_cong) auto
  then show ?thesis
    by (simp add: bin_values_def djf_months_def season_values_def)
qed

lemma djf_bin_index:
  assumes "bin_values (djf_months s) k \<noteq> []"
  shows "\<exists>y. k = 4 * y - 1"
proof -
  from assms obtain p where "p \<in> set s" "month (fst p) \<in> {12, 1, 2}" "quarter_index (fst p) = k"
    by (auto simp: bin_values_def djf_months_def filter_empty_conv)
  then have "k = 4 * (if month (fst p) = 12 then year (fst p) + 1 else year (fst p)) - 1"
    by (auto simp: quarter_index_def)
  then show ?thesis by blast
qed

lemma quarter_start_december: "quarter_start (4 * y - 1) = ymd (y - 1) 12 1"
proof -
  have "(4 * y - 1) div 4 = y - 1" "(4 * y - 1) mod 4 = 3"
    by presburger+
  then show ?thesis
    by (simp add: quarter_start_def ymd_def)
qed

lemma add_one_year_december: "add_one_year (ymd y 12 d) = ymd (y + 1) 12 d"
  by (simp add: add_one_year_def ymd_def)

lemma seasonal_djf_iff:
  assumes "seasonal_djf s = Inr sd"
  shows "(ts, v) \<in> set (relabel sd) \<longleftrightarrow>
   (\<exists>y. ts = ymd y 12 1 \<and> 1981 \<le> y \<and> v = fl_mean (season_values s y) \<and> v \<noteq> NaN)"
proof
  from assms obtain b where b: "resample_QS_DEC_mean (djf_months s) = Inr b"
    and sd: "sd = sel_time_from 1980 (dropna b)"
    by (auto simp: seasonal_djf_def split: sum.splits)
  note resample_iff = resample_iff [OF b]
  {
  assume "(ts, v) \<in> set (relabel sd)"
  then obtain ts0 where ts0: "ts = add_one_year ts0" "1980 \<le> year ts0"
    "(ts0, v) \<in> set (dropna b)"
    by (auto simp: relabel_def sd sel_time_from_def)
  from ts0(3) obtain k where k: "ts0 = quarter_start k"
    "v = fl_mean (bin_values (djf_months s) k)" "v \<noteq> NaN"
    unfolding resample_iff by blast
  then have "bin_values (djf_months s) k \<noteq> []"
    using fl_mean_not_NaN_nonempty by blast
  then obtain y where y: "k = 4 * y - 1"
    using djf_bin_index by blast
  with k ts0 have "ts = ymd y 12 1" "1981 \<le> y" "v = fl_mean (season_values s y)"
    by (simp_all add: quarter_start_december add_one_year_december bin_values_djf)
      (simp add: ymd_def)
  with k(3) show "\<exists>y. ts = ymd y 12 1 \<and> 1981 \<le> y \<and> v = fl_mean (season_values s y) \<and> v \<noteq> NaN"
    by blast
  }
  assume "\<exists>y. ts = ymd y 12 1 \<and> 1981 \<le> y \<and> v = fl_mean (season_values s y) \<and> v \<noteq> NaN"
  then obtain y where y: "ts = ymd y 12 1" "1981 \<le> y" "v = fl_mean (season_values s y)" "v \<noteq> NaN"
    by blast
  then have "(quarter_start (4 * y - 1), v) \<in> set (dropna b)"
    unfolding resample_iff by (auto simp: bin_values_djf)
  moreover have "1980 \<le> year (quarter_start (4 * y - 1))"
    using y(2) by (simp add: quarter_start_december ymd_def)
  moreover have "ts = add_one_year (quarter_start (4 * y - 1))"
    using y(1) by (simp add: quarter_start_december add_one_year_december)
  ultimately show "(ts, v) \<in> set (relabel sd)"
    by (force simp: relabel_def sd sel_time_from_def)
qed

lemma fl_div_count_NaN: "ys \<noteq> [] \<Longrightarrow> fl_div s (Fin (real (length ys))) = NaN \<longleftrightarrow> s = NaN"
  by (cases s) simp_all

lemma fl_mean_valid: "fl_mean xs \<noteq> NaN \<longleftrightarrow> valid_mean xs"
proof (cases "dropna_vals xs = []")
  case True
  then show ?thesis
    by (auto simp: fl_mean_def valid_mean_def dropna_vals_def filter_empty_conv)
next
  case False
  then have "fl_mean xs \<noteq> NaN \<longleftrightarrow> fl_sum (dropna_vals xs) \<noteq> NaN"
    by (simp add: fl_mean_def Let_def fl_div_count_NaN)
  moreover from False have "\<exists>x \<in> set xs. x \<noteq> NaN"
    by (auto simp: dropna_vals_def filter_empty_conv)
  ultimately show ?thesis
    by (simp add: valid_mean_def)
qed

lemma ymd_year_inject: "ymd y mo d = ymd y' mo d \<longleftrightarrow> y = y'"
  by (simp add: ymd_def)

lemma compute_index_seasonal:
  assumes "compute_index eof_fit rng lstsq alen tos_anom base_period = Inr r"
  obtains s1 s2 where "seasonal_djf (pc1_series r) = Inr s1" "seasonal_djf (pc2_series r) = Inr s2"
    "pcs_djf r = (relabel s1, relabel s2)"
    "alpha r = snd (snd (lstsq (map snd (relabel s1)) (map snd (relabel s2))))"
proof -
  from assms obtain s1 s2 ra where
    s: "seasonal_djf (zip (index_time r) (map fst (pcs r))) = Inr s1"
    "seasonal_djf (zip (index_time r) (map snd (pcs r))) = Inr s2"
    "pcs_djf r = (relabel s1, relabel s2)"
    and ra: "compute_alpha lstsq alen (map snd (relabel s1)) (map snd (relabel s2)) = Inr ra"
    "alpha r = fst ra"
    by (rule compute_index_Inr)
  from ra have "alpha r = snd (snd (lstsq (map snd (relabel s1)) (map snd (relabel s2))))"
    by (simp add: compute_alpha_Inr(4))
  with s that show thesis
    by (simp add: pc1_series_def pc2_series_def)
qed

text \<open>
  Claim C6. Whenever \<open>compute_index\<close> returns, the two seasonal series it hands to the
  alpha fit consist of exactly these entries: for every winter whose mean is defined, from
  the one starting in December 1980 on, the mean over December of \<open>y - 1\<close>, January and
  February of \<open>y\<close> of the monthly principal component, labelled 1 December of \<open>y\<close>. The
  label carries the January year, one year after the December in which the season starts;
  alpha is the quadratic coefficient fitted to the values of these two series.
\<close>

theorem season_label_january_year:
  assumes "compute_index eof_fit rng lstsq alen tos_anom base_period = Inr r"
  shows "(\<forall>ts v. (ts, v) \<in> set (fst (pcs_djf r)) \<longleftrightarrow>
            (\<exists>y. ts = ymd y 12 1 \<and> 1981 \<le> y \<and>
                 v = fl_mean (season_values (pc1_series r) y) \<and> v \<noteq> NaN)) \<and>
         (\<forall>ts v. (ts, v) \<in> set (snd (pcs_djf r)) \<longleftrightarrow>
            (\<exists>y. ts = ymd y 12 1 \<and> 1981 \<le> y \<and>
                 v = fl_mean (season_values (pc2_series r) y) \<and> v \<noteq> NaN)) \<and>
         alpha r = snd (snd (lstsq (map snd (fst (pcs_djf r))) (map snd (snd (pcs_djf r)))))"
proof -
  from assms obtain s1 s2 where s: "seasonal_djf (pc1_series r) = Inr s1"
    "seasonal_djf (pc2_series r) = Inr s2" "pcs_djf r = (relabel s1, relabel s2)"
    "alpha r = snd (snd (lstsq (map snd (relabel s1)) (map snd (relabel s2))))"
    by (rule compute_index_seasonal)
  show ?thesis
    using seasonal_djf_iff [OF s(1)] seasonal_djf_iff [OF s(2)] s(3,4) by simp
qed

lemma example_series:
  "pc1_series example_result =
     [(ymd 1999 12 1, Fin 1), (ymd 2000 1 1, Fin 2), (ymd 2000 2 1, Fin 3), (ymd 2000 12 1, Fin 5)]"
  by (simp add: pc1_series_def example_result_def example_pcs_def example_time_def)

lemma example_season_2000: "season_values (pc1_series example_result) 2000 = [Fin 1, Fin 2, Fin 3]"
  by (simp add: example_series season_values_def in_season_def ymd_def)

lemma example_season_2001: "season_values (pc1_series example_result) 2001 = [Fin 5]"
  by (simp add: example_series season_values_def in_season_def ymd_def)

lemma example_pcs_djf:
  "fst (pcs_djf example_result) = [(ymd 2000 12 1, Fin 2), (ymd 2001 12 1, Fin 5)]"
  by (simp add: example_result_def)

text \<open>
  The small run: December 1999, January 2000 and February 2000, with the first principal
  component \<open>1\<close>, \<open>2\<close> and \<open>3\<close>, form the season labelled 1 December 2000, of the year
  2000, with the mean \<open>2\<close>.
\<close>

theorem season_label_january_year_witness:
  "compute_index example_fit 0 example_lstsq example_alen example_field (1999, 2000) =
     Inr example_result \<and>
   season_values (pc1_series example_result) 2000 = [Fin 1, Fin 2, Fin 3] \<and>
   (ymd 2000 12 1, Fin 2) \<in> set (fst (pcs_djf example_result)) \<and>
   year (ymd 2000 12 1) = 2000 \<and>
   (ymd 1999 12 1, Fin 2) \<notin> set (fst (pcs_djf example_result)) \<and>
   alpha example_result =
     snd (snd (example_lstsq (map snd (fst (pcs_djf example_result)))
       (map snd (snd (pcs_djf example_result)))))"
proof -
  note t = season_label_january_year [OF example_compute_index [of 0]]
  from t have 1: "(ymd 2000 12 1, Fin 2) \<in> set (fst (pcs_djf example_result)) \<longleftrightarrow>
      (\<exists>y. ymd 2000 12 1 = ymd y 12 1 \<and> 1981 \<le> y \<and>
           Fin 2 = fl_mean (season_values (pc1_series example_result) y) \<and> Fin 2 \<noteq> NaN)"
    by blast
  have "ymd 2000 12 1 = ymd 2000 12 1 \<and> (1981::int) \<le> 2000 \<and>
      Fin 2 = fl_mean (season_values (pc1_series example_result) 2000) \<and> Fin 2 \<noteq> NaN"
    by (simp add: example_season_2000 fl_mean_def dropna_vals_def)
  with 1 have 2: "(ymd 2000 12 1, Fin 2) \<in> set (fst (pcs_djf example_result))"
    by blast
  from t have "(ymd 1999 12 1, Fin 2) \<in> set (fst (pcs_djf example_result)) \<longleftrightarrow>
      (\<exists>y. ymd 1999 12 1 = ymd y 12 1 \<and> 1981 \<le> y \<and>
           Fin 2 = fl_mean (season_values (pc1_series example_result) y) \<and> Fin 2 \<noteq> NaN)"
    by blast
  moreover have "fl_mean (season_values (pc1_series example_result) 1999) = NaN"
    by (simp add: example_series season_values_def in_season_def ymd_def fl_mean_def
        dropna_vals_def)
  ultimately have 3: "(ymd 1999 12 1, Fin 2) \<notin> set (fst (pcs_djf example_result))"
    by (auto simp: ymd_year_inject)
  from t have 4: "alpha example_result =
     snd (snd (example_lstsq (map snd (fst (pcs_djf example_result)))
       (map snd (snd (pcs_djf example_result)))))"
    by blast
  from 2 3 4 show ?thesis
    using example_compute_index [of 0] by (simp add: example_season_2000) (simp add: ymd_def)
qed

text \<open>
  Claim C7, as the code has it. Whenever \<open>compute_index\<close> returns, the winter season of a
  January year \<open>y\<close> from 1981 on is in the seasonal series of a principal component that
  enters the fit exactly when the NaN-skipping mean of its monthly values is defined: when
  at least one of its monthly values is valid and the valid ones add up to a value. It
  enters with that mean. What \<open>dropna\<close> removes are the seasonal aggregates without a
  defined mean (the quarters outside winter among them), not the seasons that lack a month.
\<close>

theorem season_kept_iff_valid:
  assumes "compute_index eof_fit rng lstsq alen tos_anom base_period = Inr r" and "1981 \<le> y"
  shows "((ymd y 12 1, v) \<in> set (fst (pcs_djf r)) \<longleftrightarrow>
            v = fl_mean (season_values (pc1_series r) y) \<and>
            valid_mean (season_values (pc1_series r) y)) \<and>
         ((ymd y 12 1, v) \<in> set (snd (pcs_djf r)) \<longleftrightarrow>
            v = fl_mean (season_values (pc2_series r) y) \<and>
            valid_mean (season_values (pc2_series r) y))"
proof -
  from assms(1) obtain s1 s2 where s: "seasonal_djf (pc1_series r) = Inr s1"
    "seasonal_djf (pc2_series r) = Inr s2" "pcs_djf r = (relabel s1, relabel s2)"
    by (rule compute_index_seasonal)
  have "(ymd y 12 1, v) \<in> set (relabel sd) \<longleftrightarrow>
        v = fl_mean (season_values s y) \<and> valid_mean (season_values s y)"
    if "seasonal_djf s = Inr sd" for s sd
    using assms(2) by (auto simp: seasonal_djf_iff [OF that] ymd_year_inject fl_mean_valid [symmetric])
  from this [OF s(1)] this [OF s(2)] show ?thesis
    by (simp add: s(3))
qed

text \<open>
  The small run: of the winter 2000/01 the record holds December 2000 alone, and the season
  is in the series that enters the fit, with the value of that one month.
\<close>

theorem season_kept_iff_valid_witness:
  "compute_index example_fit 0 example_lstsq example_alen example_field (1999, 2000) =
     Inr example_result \<and>
   season_values (pc1_series example_result) 2001 = [Fin 5] \<and>
   valid_mean [Fin 5] \<and>
   (ymd 2001 12 1, Fin 5) \<in> set (fst (pcs_djf example_result))"
proof -
  have v: "valid_mean [Fin 5]" "fl_mean [Fin 5] = Fin 5"
    by (simp_all add: valid_mean_def fl_mean_def dropna_vals_def)
  from season_kept_iff_valid [OF example_compute_index [of 0], of 2001 "Fin 5"]
  have "(ymd 2001 12 1, Fin 5) \<in> set (fst (pcs_djf example_result))"
    by (simp add: example_season_2001 v)
  then show ?thesis
    using example_compute_index [of 0] by (simp add: example_season_2001 v)
qed

lemma winter_1981_seasonal:
  "seasonal_djf winter_1981_no_december = Inr [(ymd 1980 12 1, Fin 2)]"
  by (simp add: seasonal_djf_def sel_time_from_def dropna_def resample_QS_DEC_mean_def
      djf_months_def quarter_index_def quarter_start_def bin_values_def fl_mean_def
      dropna_vals_def winter_1981_no_december_def ymd_def)

text \<open>
  Incomplete seasons that enter the fit. In the small run the season of the winter 2000/01
  holds one month, December 2000, and is the second point of the fit. A record that starts
  in January 1981 gives a season from January and February alone, without a December.
\<close>

theorem incomplete_season_kept:
  "compute_index example_fit 0 example_lstsq example_alen example_field (1999, 2000) =
     Inr example_result \<and>
   season_values (pc1_series example_result) 2001 = [Fin 5] \<and>
   fst (pcs_djf example_result) = [(ymd 2000 12 1, Fin 2), (ymd 2001 12 1, Fin 5)] \<and>
   list_all (\<lambda>p. month (fst p) \<noteq> 12) winter_1981_no_december \<and>
   seasonal_djf winter_1981_no_december = Inr [(ymd 1980 12 1, Fin 2)]"
  by (simp add: example_compute_index example_season_2001 example_pcs_djf winter_1981_seasonal)
    (simp add: winter_1981_no_december_def ymd_def)

section \<open>All-zero anomalies\<close>

lemma sel_coord_subset: "set (sel_coord lo hi cs xs) \<subseteq> set xs"
  by (auto simp: sel_coord_def dest: set_zip_rightD)

lemma sel_coord_list_all: "list_all P xs \<Longrightarrow> list_all P (sel_coord lo hi cs xs)"
  using sel_coord_subset [of lo hi cs xs] by (auto simp: list_all_iff)

lemma all_zero_sel_box: "all_zero (vals f) \<Longrightarrow> all_zero (vals (sel_box f))"
  by (simp add: all_zero_def sel_box_def sel_lon_def sel_lat_def sel_lon_grid_def
      sel_lat_grid_def list_all_iff sel_coord_list_all)
    (meson sel_coord_subset subsetD)

lemma dot_zero:
  "list_all (\<lambda>x. x = Fin 0) xs \<Longrightarrow> list_all (\<lambda>c. c \<noteq> PInf \<and> c \<noteq> NInf) cs \<Longrightarrow>
   fl_sum (map (\<lambda>p. fl_mul (fst p) (snd p)) (filter (\<lambda>p. snd p \<noteq> NaN) (zip xs cs))) = Fin 0"
proof (induction xs arbitrary: cs)
  case Nil
  then show ?case by simp
next
  case (Cons x xs)
  show ?case
  proof (cases cs)
    case Nil
    then show ?thesis by simp
  next
    case (Cons c cs')
    with Cons.prems Cons.IH [of cs'] show ?thesis
      by (cases c) simp_all
  qed
qed

lemma project_zero:
  assumes "list_all (list_all (\<lambda>x. x = Fin 0)) snap" and "no_inf pat"
  shows "project snap pat = Fin 0"
proof -
  from assms have "list_all (\<lambda>x. x = Fin 0) (concat snap)"
    "list_all (\<lambda>c. c \<noteq> PInf \<and> c \<noteq> NInf) (concat pat)"
    by (auto simp: list_all_iff no_inf_def)
  then show ?thesis
    unfolding project_def by (rule dot_zero)
qed

lemma transform_zero:
  assumes "all_zero (preprocess m X)" and "finite_patterns m"
  shows "transform m X = map (\<lambda>snap. (Fin 0, Fin 0)) (preprocess m X)"
  unfolding transform_def
proof (rule map_cong [OF refl])
  fix snap assume "snap \<in> set (preprocess m X)"
  with assms(1) have "list_all (list_all (\<lambda>x. x = Fin 0)) snap"
    by (simp add: all_zero_def list_all_iff)
  with assms(2) show "(project snap (fst (components m)), project snap (snd (components m))) =
      (Fin 0, Fin 0)"
    by (simp add: project_zero finite_patterns_def)
qed

text \<open>The value every time step of a principal component takes when all projections are zero.\<close>

lemma scaled_pcs_zero:
  assumes "all_zero (preprocess m X)" and "finite_patterns m"
  shows "scaled_pcs m X =
     map (\<lambda>snap. (fl_mul (fl_mul (Fin 0) (fst (scale_factor m))) (fst (correction_factor m)),
                   fl_mul (fl_mul (Fin 0) (snd (scale_factor m))) (snd (correction_factor m))))
       (preprocess m X)"
  by (simp add: scaled_pcs_def transform_zero [OF assms] comp_def)

lemma zero_times_factor:
  "fl_mul (fl_mul (Fin 0) s) (sign_factor mu) = Fin 0 \<or> fl_mul (fl_mul (Fin 0) s) (sign_factor mu) = NaN"
  by (cases s) (simp_all add: sign_factor_def)

lemma fl_mean_all_nan: "list_all (\<lambda>x. x = NaN) xs \<Longrightarrow> fl_mean xs = NaN"
  by (simp add: fl_mean_def dropna_vals_def list_all_iff filter_empty_conv)

lemma fl_sum_zeros: "list_all (\<lambda>x. x = Fin 0) xs \<Longrightarrow> fl_sum xs = Fin 0"
  by (induction xs) simp_all

lemma fl_mean_zeros: "list_all (\<lambda>x. x = Fin 0) xs \<Longrightarrow> fl_mean xs = Fin 0 \<or> fl_mean xs = NaN"
proof -
  assume z: "list_all (\<lambda>x. x = Fin 0) xs"
  then have "dropna_vals xs = xs"
    by (induction xs) (simp_all add: dropna_vals_def)
  with z show ?thesis
    by (simp add: fl_mean_def fl_sum_zeros)
qed

lemma season_values_list_all:
  "\<forall>p \<in> set s. P (snd p) \<Longrightarrow> list_all P (season_values s y)"
  by (auto simp: season_values_def list_all_iff)

lemma seasonal_all_nan:
  assumes "\<forall>p \<in> set s. snd p = NaN" and "seasonal_djf s = Inr sd"
  shows "relabel sd = []"
proof (cases "relabel sd")
  case Nil
  then show ?thesis .
next
  case (Cons p ps)
  obtain ts v where "p = (ts, v)"
    by (cases p)
  with Cons have "(ts, v) \<in> set (relabel sd)"
    by simp
  then obtain y where "v = fl_mean (season_values s y)" "v \<noteq> NaN"
    unfolding seasonal_djf_iff [OF assms(2)] by blast
  with fl_mean_all_nan [OF season_values_list_all [of s "\<lambda>x. x = NaN" y]] assms(1)
  show ?thesis by simp
qed

lemma seasonal_all_zero:
  assumes "\<forall>p \<in> set s. snd p = Fin 0" and "seasonal_djf s = Inr sd"
  shows "list_all (\<lambda>v. v = Fin 0) (map snd (relabel sd))"
proof -
  have "v = Fin 0" if "(ts, v) \<in> set (relabel sd)" for ts v
  proof -
    from that obtain y where "v = fl_mean (season_values s y)" "v \<noteq> NaN"
      unfolding seasonal_djf_iff [OF assms(2)] by blast
    with fl_mean_zeros [OF season_values_list_all [of s "\<lambda>x. x = Fin 0" y]] assms(1)
    show ?thesis by auto
  qed
  then show ?thesis
    by (auto simp: list_all_iff)
qed

lemma zip_const_values: "\<forall>p \<in> set (zip ts (map (\<lambda>x. c) xs)). snd p = c"
  by (auto dest: set_zip_rightD)

lemma eindex_zero: "eindex (Fin 0, Fin 0) = Fin 0"
  by (simp add: eindex_sqrt fl_sub_def)

lemma cindex_zero: "cindex (Fin 0, Fin 0) = Fin 0"
  by (simp add: cindex_sqrt)

lemma sel_box_time: "time (sel_box f) = time f"
  by (simp add: sel_box_def sel_lon_def sel_lat_def)

lemma djf_months_zip:
  assumes "length vs = length ts"
  shows "map fst (djf_months (zip ts vs)) = filter (\<lambda>t. month t \<in> {12, 1, 2}) ts"
proof -
  have "map fst (djf_months (zip ts vs)) = filter (\<lambda>t. month t \<in> {12, 1, 2}) (map fst (zip ts vs))"
    by (simp add: djf_months_def filter_map comp_def)
  with assms show ?thesis
    by simp
qed

lemma seasonal_djf_zip:
  assumes "length vs = length ts"
  shows "filter (\<lambda>t. month t \<in> {12, 1, 2}) ts = [] \<Longrightarrow> seasonal_djf (zip ts vs) = Inl ValueError"
    and "filter (\<lambda>t. month t \<in> {12, 1, 2}) ts \<noteq> [] \<Longrightarrow> \<exists>sd. seasonal_djf (zip ts vs) = Inr sd"
proof -
  note z = djf_months_zip [OF assms]
  show "seasonal_djf (zip ts vs) = Inl ValueError" if "filter (\<lambda>t. month t \<in> {12, 1, 2}) ts = []"
    using that z by (simp add: seasonal_djf_fails)
  show "\<exists>sd. seasonal_djf (zip ts vs) = Inr sd" if "filter (\<lambda>t. month t \<in> {12, 1, 2}) ts \<noteq> []"
  proof (cases "seasonal_djf (zip ts vs)")
    case (Inl e)
    then have "djf_months (zip ts vs) = []"
      by (simp add: seasonal_djf_fails)
    with that z show ?thesis by simp
  next
    case (Inr sd)
    then show ?thesis by blast
  qed
qed

lemma compute_index_seasonal_error:
  assumes "eof_fit rng (sel_time bp (sel_box f)) = Inr m"
    and "seasonal_djf (zip (time (sel_box f)) (map fst (scaled_pcs m (sel_box f)))) = Inl e"
  shows "compute_index eof_fit rng lstsq alen f bp = Inl e"
  using assms by (simp add: compute_index_cases)

lemma compute_index_alpha_error:
  assumes "eof_fit rng (sel_time bp (sel_box f)) = Inr m"
    and "seasonal_djf (zip (time (sel_box f)) (map fst (scaled_pcs m (sel_box f)))) = Inr s1"
    and "seasonal_djf (zip (time (sel_box f)) (map snd (scaled_pcs m (sel_box f)))) = Inr s2"
    and "compute_alpha lstsq alen (map snd (relabel s1)) (map snd (relabel s2)) = Inl e"
  shows "compute_index eof_fit rng lstsq alen f bp = Inl e"
  using assms by (simp add: compute_index_cases)

lemma zero_field_model:
  assumes fit: "eof_fit rng (sel_time bp (sel_box f)) = Inr m"
    and pz: "all_zero (preprocess m (sel_box f))" and fp: "finite_patterns m"
    and solver: "zero_fit_zero lstsq"
  shows "time_preserving m (sel_box f) \<Longrightarrow>
         fst (explained_variance m) = Fin 0 \<or> snd (explained_variance m) = Fin 0 \<Longrightarrow>
           compute_index eof_fit rng lstsq alen f bp = Inl (nan_component_error (time f))"
    and "compute_index eof_fit rng lstsq alen f bp = Inr r \<Longrightarrow>
           list_all (\<lambda>p. p = (Fin 0, Fin 0)) (pcs r) \<and> list_all (\<lambda>x. x = Fin 0) (E_index r) \<and>
           list_all (\<lambda>x. x = Fin 0) (C_index r) \<and> alpha r = Fin 0"
proof -
  define z1 where "z1 = fl_mul (fl_mul (Fin 0) (fst (scale_factor m))) (fst (correction_factor m))"
  define z2 where "z2 = fl_mul (fl_mul (Fin 0) (snd (scale_factor m))) (snd (correction_factor m))"
  define T where "T = time (sel_box f)"
  define P where "P = preprocess m (sel_box f)"
  have ps: "scaled_pcs m (sel_box f) = map (\<lambda>snap. (z1, z2)) P"
    by (simp add: scaled_pcs_zero [OF pz fp] z1_def z2_def P_def)
  have ps1: "map fst (scaled_pcs m (sel_box f)) = map (\<lambda>snap. z1) P"
    and ps2: "map snd (scaled_pcs m (sel_box f)) = map (\<lambda>snap. z2) P"
    by (simp_all add: ps comp_def)
  have z1c: "z1 = Fin 0 \<or> z1 = NaN" and z2c: "z2 = Fin 0 \<or> z2 = NaN"
    using zero_times_factor by (simp_all add: z1_def z2_def correction_factor_def)
  have nan1: "relabel s1 = []" if "z1 = NaN" "seasonal_djf (zip T (map (\<lambda>snap. z1) P)) = Inr s1" for s1
    using seasonal_all_nan [OF _ that(2)] zip_const_values [of T z1 P] that(1) by simp
  have nan2: "relabel s2 = []" if "z2 = NaN" "seasonal_djf (zip T (map (\<lambda>snap. z2) P)) = Inr s2" for s2
    using seasonal_all_nan [OF _ that(2)] zip_const_values [of T z2 P] that(1) by simp
  have fail: "compute_alpha lstsq alen (map snd (relabel s1)) (map snd (relabel s2)) = Inl TypeError"
    if "z1 = NaN \<or> z2 = NaN" "seasonal_djf (zip T (map (\<lambda>snap. z1) P)) = Inr s1"
      "seasonal_djf (zip T (map (\<lambda>snap. z2) P)) = Inr s2" for s1 s2
    using that nan1 [of s1] nan2 [of s2]
    by (auto simp: compute_alpha_empty compute_alpha_no_ordinates)
  show "compute_index eof_fit rng lstsq alen f bp = Inl (nan_component_error (time f))"
    if tp: "time_preserving m (sel_box f)"
      and ev: "fst (explained_variance m) = Fin 0 \<or> snd (explained_variance m) = Fin 0"
  proof -
    from ev have nan: "z1 = NaN \<or> z2 = NaN"
      by (auto simp: z1_def z2_def scale_factor_def)
    from tp have len: "length (map (\<lambda>snap. z1) P) = length T" "length (map (\<lambda>snap. z2) P) = length T"
      by (simp_all add: time_preserving_def P_def T_def)
    show ?thesis
    proof (cases "filter (\<lambda>t. month t \<in> {12, 1, 2}) T = []")
      case True
      have sd: "seasonal_djf (zip T (map (\<lambda>snap. z1) P)) = Inl ValueError"
        by (rule seasonal_djf_zip(1) [OF len(1) True])
      have "compute_index eof_fit rng lstsq alen f bp = Inl ValueError"
        by (rule compute_index_seasonal_error [where m = m])
          (simp_all add: fit ps1 T_def [symmetric] sd)
      with True show ?thesis
        by (simp add: nan_component_error_def T_def sel_box_time)
    next
      case False
      from seasonal_djf_zip(2) [OF len(1) False] seasonal_djf_zip(2) [OF len(2) False]
      obtain s1 s2 where s: "seasonal_djf (zip T (map (\<lambda>snap. z1) P)) = Inr s1"
        "seasonal_djf (zip T (map (\<lambda>snap. z2) P)) = Inr s2"
        by blast
      have "compute_index eof_fit rng lstsq alen f bp = Inl TypeError"
        by (rule compute_index_alpha_error [where m = m and ?s1.0 = s1 and ?s2.0 = s2])
          (simp_all add: fit ps1 ps2 T_def [symmetric] s fail [OF nan s])
      with False show ?thesis
        by (simp add: nan_component_error_def T_def sel_box_time)
    qed
  qed
  show "list_all (\<lambda>p. p = (Fin 0, Fin 0)) (pcs r) \<and> list_all (\<lambda>x. x = Fin 0) (E_index r) \<and>
        list_all (\<lambda>x. x = Fin 0) (C_index r) \<and> alpha r = Fin 0"
    if ret: "compute_index eof_fit rng lstsq alen f bp = Inr r"
  proof -
    from ret obtain model s1 s2 ra where
      r: "eof_fit rng (sel_time bp (sel_box f)) = Inr model"
      "pcs r = scaled_pcs model (sel_box f)"
      "E_index r = map eindex (pcs r)" "C_index r = map cindex (pcs r)"
      "index_time r = time (sel_box f)"
      "seasonal_djf (zip (index_time r) (map fst (pcs r))) = Inr s1"
      "seasonal_djf (zip (index_time r) (map snd (pcs r))) = Inr s2"
      and ca: "compute_alpha lstsq alen (map snd (relabel s1)) (map snd (relabel s2)) = Inr ra"
      and al: "alpha r = fst ra"
      by (rule compute_index_Inr)
    from r(1) fit have "model = m" by simp
    with r have pr: "pcs r = map (\<lambda>snap. (z1, z2)) P"
      and s: "seasonal_djf (zip T (map (\<lambda>snap. z1) P)) = Inr s1"
      "seasonal_djf (zip T (map (\<lambda>snap. z2) P)) = Inr s2"
      by (simp_all add: ps T_def comp_def)
    from ca fail [OF _ s] z1c z2c have zz: "z1 = Fin 0" "z2 = Fin 0"
      by auto
    have "list_all (\<lambda>v. v = Fin 0) (map snd (relabel s2))"
      using seasonal_all_zero [OF _ s(2)] zip_const_values [of T z2 P] zz(2) by simp
    with solver have "lstsq (map snd (relabel s1)) (map snd (relabel s2)) = (Fin 0, Fin 0, Fin 0)"
      by (simp add: zero_fit_zero_def)
    with compute_alpha_Inr(4) [OF ca] have "fst ra = Fin 0"
      by simp
    then show ?thesis
      by (simp add: r(3,4) pr al zz list_all_iff eindex_zero cindex_zero)
  qed
qed

text \<open>
  Claim C5, as the code has it. Let the anomalies be zero everywhere, let the decomposition
  map all-zero data to all-zero preprocessed values, one snapshot for each time step, and
  return patterns without infinite entries, and let the least-squares solver return the
  zero polynomial for all-zero ordinates. Whenever \<open>compute_index\<close> returns, the principal
  components, E and C are exactly zero at every time step and alpha is zero; it never
  returns a NaN or an infinite index value. When the explained variance of a mode is zero,
  \<open>compute_index\<close> does not return, and the error is not one of its own: the scale factor
  is infinite, the principal component is \<open>0 * inf = NaN\<close> at every time step, and the
  call ends with \<open>ValueError\<close> from \<open>resample\<close> if the record has no December, January or
  February, and otherwise with \<open>TypeError\<close> from \<open>polyfit\<close>, called on a seasonal series
  from which every mean was dropped.
\<close>

theorem zero_field_outcome:
  assumes "all_zero (vals tos_anom)"
    and "\<forall>m. eof_fit rng (sel_time base_period (sel_box tos_anom)) = Inr m \<longrightarrow>
           zero_preserving m \<and> finite_patterns m \<and> time_preserving m (sel_box tos_anom)"
    and "zero_fit_zero lstsq"
  shows "(\<forall>m. eof_fit rng (sel_time base_period (sel_box tos_anom)) = Inr m \<and>
              (fst (explained_variance m) = Fin 0 \<or> snd (explained_variance m) = Fin 0) \<longrightarrow>
            compute_index eof_fit rng lstsq alen tos_anom base_period =
              Inl (nan_component_error (time tos_anom))) \<and>
         (\<forall>r. compute_index eof_fit rng lstsq alen tos_anom base_period = Inr r \<longrightarrow>
            list_all (\<lambda>p. p = (Fin 0, Fin 0)) (pcs r) \<and> list_all (\<lambda>x. x = Fin 0) (E_index r) \<and>
            list_all (\<lambda>x. x = Fin 0) (C_index r) \<and> alpha r = Fin 0)"
proof -
  have a: "compute_index eof_fit rng lstsq alen tos_anom base_period =
      Inl (nan_component_error (time tos_anom))"
    if m: "eof_fit rng (sel_time base_period (sel_box tos_anom)) = Inr m"
      and ev: "fst (explained_variance m) = Fin 0 \<or> snd (explained_variance m) = Fin 0" for m
  proof -
    from assms(2) m have fp: "zero_preserving m" "finite_patterns m"
      "time_preserving m (sel_box tos_anom)"
      by simp_all
    with assms(1) have pz: "all_zero (preprocess m (sel_box tos_anom))"
      by (simp add: zero_preserving_def all_zero_sel_box)
    show ?thesis
      by (rule zero_field_model(1) [where m = m]) (use m pz fp assms(3) ev in simp_all)
  qed
  have b: "list_all (\<lambda>p. p = (Fin 0, Fin 0)) (pcs r) \<and> list_all (\<lambda>x. x = Fin 0) (E_index r) \<and>
        list_all (\<lambda>x. x = Fin 0) (C_index r) \<and> alpha r = Fin 0"
    if ret: "compute_index eof_fit rng lstsq alen tos_anom base_period = Inr r" for r
  proof -
    from ret obtain m where m: "eof_fit rng (sel_time base_period (sel_box tos_anom)) = Inr m"
      by (auto elim: compute_index_Inr)
    with assms(2) have fp: "zero_preserving m" "finite_patterns m"
      by simp_all
    with assms(1) have pz: "all_zero (preprocess m (sel_box tos_anom))"
      by (simp add: zero_preserving_def all_zero_sel_box)
    show ?thesis
      by (rule zero_field_model(2) [where eof_fit = eof_fit and rng = rng and bp = base_period
            and m = m and lstsq = lstsq and alen = alen and f = tos_anom])
        (use m pz fp(2) assms(3) ret in simp_all)
  qed
  from a b show ?thesis
    by blast
qed

lemma zero_sel_box: "sel_box zero_field = zero_tos"
  by (simp add: sel_box_def sel_lon_def sel_lat_def sel_coord_def sel_lat_grid_def
      sel_lon_grid_def zero_field_def zero_tos_def)

lemma zero_sel_time: "sel_time (1999, 2000) zero_tos = zero_tos"
  by (simp add: sel_time_def in_years_def zero_tos_def example_time_def ymd_def)

lemma zero_fit_tos: "example_fit rng zero_tos = Inr example_model"
  by (simp add: example_fit_def zero_tos_def example_model_def)

lemma summer_sel_box: "sel_box summer_zero_field = summer_zero_field"
  by (simp add: sel_box_def sel_lon_def sel_lat_def sel_coord_def sel_lat_grid_def
      sel_lon_grid_def summer_zero_field_def)

lemma summer_sel_time: "sel_time (2000, 2000) summer_zero_field = summer_zero_field"
  by (simp add: sel_time_def in_years_def summer_zero_field_def ymd_def)

lemma summer_fit: "example_fit rng summer_zero_field = Inr example_model"
  by (simp add: example_fit_def summer_zero_field_def example_model_def)

lemma zero_fields_all_zero: "all_zero (vals zero_field)" "all_zero (vals summer_zero_field)"
  by (simp_all add: all_zero_def zero_field_def summer_zero_field_def)

lemma zero_models_ok:
  "zero_preserving (example_model\<lparr>explained_variance := ev\<rparr>)"
  "finite_patterns (example_model\<lparr>explained_variance := ev\<rparr>)"
  "time_preserving (example_model\<lparr>explained_variance := ev\<rparr>) zero_tos"
  "time_preserving (example_model\<lparr>explained_variance := ev\<rparr>) summer_zero_field"
  by (simp_all add: zero_preserving_def finite_patterns_def no_inf_def time_preserving_def
      example_model_def zero_tos_def summer_zero_field_def example_time_def)

lemma example_model_variance:
  "example_model\<lparr>explained_variance := (Fin 1, Fin 4)\<rparr> = example_model"
  by (simp add: example_model_def)

lemma zero_lstsq_ok: "zero_fit_zero zero_lstsq"
  by (simp add: zero_fit_zero_def zero_lstsq_def)

lemma zero_transform:
  "transform example_model zero_tos = [(Fin 0, Fin 0), (Fin 0, Fin 0), (Fin 0, Fin 0), (Fin 0, Fin 0)]"
  by (simp add: transform_def project_def example_model_def zero_tos_def)

lemma zero_scaled_pcs: "scaled_pcs example_model zero_tos = zero_pcs"
  by (simp add: scaled_pcs_def zero_transform example_scale_factor example_correction_factor
      zero_pcs_def)

lemma nan_scaled_pcs:
  "scaled_pcs (example_model\<lparr>explained_variance := (Fin 0, Fin 0)\<rparr>) zero_tos = nan_pcs"
  by (simp add: scaled_pcs_def variance_transform variance_correction_factor
      variance_scale_factor zero_transform example_correction_factor nan_pcs_def)

lemma summer_nan_scaled_pcs:
  "scaled_pcs (example_model\<lparr>explained_variance := (Fin 0, Fin 0)\<rparr>) summer_zero_field =
     [(NaN, NaN), (NaN, NaN), (NaN, NaN)]"
proof -
  have "transform example_model summer_zero_field = [(Fin 0, Fin 0), (Fin 0, Fin 0), (Fin 0, Fin 0)]"
    by (simp add: transform_def project_def example_model_def summer_zero_field_def)
  then show ?thesis
    by (simp add: scaled_pcs_def variance_transform variance_correction_factor
        variance_scale_factor example_correction_factor)
qed

lemma zero_seasonal:
  "seasonal_djf (zip (time zero_tos) (map fst zero_pcs)) =
     Inr [(ymd 1999 12 1, Fin 0), (ymd 2000 12 1, Fin 0)]"
  "seasonal_djf (zip (time zero_tos) (map snd zero_pcs)) =
     Inr [(ymd 1999 12 1, Fin 0), (ymd 2000 12 1, Fin 0)]"
proof -
  have "seasonal_djf (zip example_time [Fin 0, Fin 0, Fin 0, Fin 0]) =
     Inr [(ymd 1999 12 1, Fin 0), (ymd 2000 12 1, Fin 0)]"
    unfolding example_seasonal
    by (simp add: sel_time_from_def dropna_def fl_mean_def dropna_vals_def ymd_def)
  then show "seasonal_djf (zip (time zero_tos) (map fst zero_pcs)) =
     Inr [(ymd 1999 12 1, Fin 0), (ymd 2000 12 1, Fin 0)]"
    "seasonal_djf (zip (time zero_tos) (map snd zero_pcs)) =
     Inr [(ymd 1999 12 1, Fin 0), (ymd 2000 12 1, Fin 0)]"
    by (simp_all add: zero_tos_def zero_pcs_def)
qed

lemma nan_seasonal:
  "seasonal_djf (zip (time zero_tos) (map fst nan_pcs)) = Inr []"
  "seasonal_djf (zip (time zero_tos) (map snd nan_pcs)) = Inr []"
proof -
  have "seasonal_djf (zip example_time [NaN, NaN, NaN, NaN]) = Inr []"
    unfolding example_seasonal
    by (simp add: sel_time_from_def dropna_def fl_mean_def dropna_vals_def)
  then show "seasonal_djf (zip (time zero_tos) (map fst nan_pcs)) = Inr []"
    "seasonal_djf (zip (time zero_tos) (map snd nan_pcs)) = Inr []"
    by (simp_all add: zero_tos_def nan_pcs_def)
qed

lemma summer_seasonal:
  "seasonal_djf (zip (time summer_zero_field) [NaN, NaN, NaN]) = Inl ValueError"
  by (simp add: seasonal_djf_def resample_QS_DEC_mean_def djf_months_def summer_zero_field_def
      ymd_def)

lemma zero_compute_alpha:
  "compute_alpha zero_lstsq example_alen [Fin 0, Fin 0] [Fin 0, Fin 0] =
     Inr (Fin 0, [Fin 0], [Fin 0])"
proof -
  have "example_alen 0 (1 / 10) (1 / 10) = 1"
    by (simp add: example_alen_def)
  then have "arange example_alen (Fin 0) (Fin (1 / 10)) (1 / 10) = Inr [Fin 0]"
    by (simp add: arange_def)
  then show ?thesis
    by (simp add: compute_alpha_def polyfit_def zero_lstsq_def dropna_vals_def fl_min_def
        fl_max_def polyval_def)
qed

lemma zero_compute_index:
  "compute_index example_fit rng zero_lstsq example_alen zero_field (1999, 2000) =
     Inr zero_result"
  by (simp add: compute_index_cases zero_sel_box zero_sel_time zero_fit_tos zero_scaled_pcs
      zero_seasonal relabel_decembers zero_compute_alpha zero_result_def)
    (simp add: zero_tos_def zero_pcs_def eindex_zero cindex_zero)

text \<open>
  The small run on all-zero anomalies. With zero explained variances \<open>compute_index\<close>
  fails, with \<open>TypeError\<close> on the record of the small run and with \<open>ValueError\<close> on the
  record of a summer; with a fit that reports the variances \<open>1\<close> and \<open>4\<close> it returns
  zeros.
\<close>

theorem zero_field_outcome_witness:
  "compute_index (with_variance (Fin 0, Fin 0) example_fit) 0 zero_lstsq example_alen zero_field
     (1999, 2000) = Inl TypeError \<and>
   compute_index (with_variance (Fin 0, Fin 0) example_fit) 0 zero_lstsq example_alen
     summer_zero_field (2000, 2000) = Inl ValueError \<and>
   compute_index example_fit 0 zero_lstsq example_alen zero_field (1999, 2000) = Inr zero_result \<and>
   alpha zero_result = Fin 0"
proof -
  let ?zfit = "with_variance (Fin 0, Fin 0) example_fit"
  let ?zmodel = "example_model\<lparr>explained_variance := (Fin 0, Fin 0)\<rparr>"
  have f1: "?zfit 0 (sel_time (1999, 2000) (sel_box zero_field)) = Inr ?zmodel"
    by (simp add: zero_sel_box zero_sel_time with_variance_def zero_fit_tos)
  have f2: "?zfit 0 (sel_time (2000, 2000) (sel_box summer_zero_field)) = Inr ?zmodel"
    by (simp add: summer_sel_box summer_sel_time with_variance_def summer_fit)
  have f3: "example_fit 0 (sel_time (1999, 2000) (sel_box zero_field)) = Inr example_model"
    by (simp add: zero_sel_box zero_sel_time zero_fit_tos)
  have h1: "\<forall>m. ?zfit 0 (sel_time (1999, 2000) (sel_box zero_field)) = Inr m \<longrightarrow>
      zero_preserving m \<and> finite_patterns m \<and> time_preserving m (sel_box zero_field)"
    using f1 by (auto simp: zero_models_ok zero_sel_box)
  have h2: "\<forall>m. ?zfit 0 (sel_time (2000, 2000) (sel_box summer_zero_field)) = Inr m \<longrightarrow>
      zero_preserving m \<and> finite_patterns m \<and> time_preserving m (sel_box summer_zero_field)"
    using f2 by (auto simp: zero_models_ok summer_sel_box)
  have h3: "\<forall>m. example_fit 0 (sel_time (1999, 2000) (sel_box zero_field)) = Inr m \<longrightarrow>
      zero_preserving m \<and> finite_patterns m \<and> time_preserving m (sel_box zero_field)"
    using f3 zero_models_ok [of "(Fin 1, Fin 4)"]
    by (auto simp: zero_sel_box example_model_variance)
  have e1: "nan_component_error (time zero_field) = TypeError"
    by (simp add: nan_component_error_def zero_field_def example_time_def ymd_def)
  have e2: "nan_component_error (time summer_zero_field) = ValueError"
    by (simp add: nan_component_error_def summer_zero_field_def ymd_def)
  from zero_field_outcome [where eof_fit = ?zfit and rng = 0 and base_period = "(1999, 2000)"
      and tos_anom = zero_field and lstsq = zero_lstsq and alen = example_alen,
      OF zero_fields_all_zero(1) h1 zero_lstsq_ok]
  have 1: "compute_index ?zfit 0 zero_lstsq example_alen zero_field (1999, 2000) = Inl TypeError"
    by (simp add: f1 e1)
  from zero_field_outcome [where eof_fit = ?zfit and rng = 0 and base_period = "(2000, 2000)"
      and tos_anom = summer_zero_field and lstsq = zero_lstsq and alen = example_alen,
      OF zero_fields_all_zero(2) h2 zero_lstsq_ok]
  have 2: "compute_index ?zfit 0 zero_lstsq example_alen summer_zero_field (2000, 2000) =
      Inl ValueError"
    by (simp add: f2 e2)
  from zero_field_outcome [where eof_fit = example_fit and rng = 0
      and base_period = "(1999, 2000)" and tos_anom = zero_field and lstsq = zero_lstsq
      and alen = example_alen, OF zero_fields_all_zero(1) h3 zero_lstsq_ok]
  have 3: "alpha zero_result = Fin 0"
    by (simp add: zero_compute_index)
  from 1 2 3 show ?thesis
    by (simp add: zero_compute_index)
qed

text \<open>
  All-zero anomalies and a fit that reports the explained variances zero. The principal
  components are NaN at every time step. On the record of the small run both seasonal
  series are empty and \<open>compute_index\<close> ends with the \<open>TypeError\<close> that \<open>polyfit\<close> raises
  on an empty input; on the record of a summer it ends with the \<open>ValueError\<close> of
  \<open>resample\<close>. Neither is a check of the explained variance.
\<close>

theorem zero_variance_not_checked:
  "scaled_pcs (example_model\<lparr>explained_variance := (Fin 0, Fin 0)\<rparr>) zero_tos = nan_pcs \<and>
   (\<forall>rng lstsq alen.
      compute_index (with_variance (Fin 0, Fin 0) example_fit) rng lstsq alen zero_field
        (1999, 2000) = Inl TypeError) \<and>
   (\<forall>rng lstsq alen.
      compute_index (with_variance (Fin 0, Fin 0) example_fit) rng lstsq alen summer_zero_field
        (2000, 2000) = Inl ValueError)"
proof -
  have 1: "compute_index (with_variance (Fin 0, Fin 0) example_fit) rng lstsq alen zero_field
        (1999, 2000) = Inl TypeError" for rng lstsq alen
    by (simp add: compute_index_cases zero_sel_box zero_sel_time with_variance_def zero_fit_tos
        nan_scaled_pcs nan_seasonal relabel_def compute_alpha_empty)
  have 2: "compute_index (with_variance (Fin 0, Fin 0) example_fit) rng lstsq alen
        summer_zero_field (2000, 2000) = Inl ValueError" for rng lstsq alen
    by (simp add: compute_index_cases summer_sel_box summer_sel_time with_variance_def
        summer_fit summer_nan_scaled_pcs summer_seasonal)
  from 1 2 show ?thesis
    by (simp add: nan_scaled_pcs)
qed

section \<open>A reference period outside the record\<close>

text \<open>
  \<open>compute_index\<close> makes no check of the reference period. A period that holds no time
  step of the field selects an empty sample, on which the EOF fit is called; an error of the
  fit is the outcome of \<open>compute_index\<close>. What the xeofs fit does on an empty sample is
  not part of the notebook.
\<close>

lemma sel_time_outside:
  assumes "\<forall>ts \<in> set (time f). \<not> in_years bp ts"
  shows "time (sel_time bp f) = []" and "vals (sel_time bp f) = []"
proof -
  show "time (sel_time bp f) = []"
    using assms by (simp add: sel_time_def filter_empty_conv)
  have "filter (\<lambda>p. in_years bp (fst p)) (zip (time f) (vals f)) = []"
    using assms by (auto simp: filter_empty_conv dest: set_zip_leftD)
  then show "vals (sel_time bp f) = []"
    by (simp add: sel_time_def)
qed

lemma compute_index_fit_error:
  "eof_fit rng (sel_time bp (sel_box f)) = Inl e \<Longrightarrow>
   compute_index eof_fit rng lstsq alen f bp = Inl e"
  by (simp add: compute_index_cases)

end
